theory Spec2Isabelle
  imports Main "HOL-Library.AList"
begin

section \<open>Configuration (src/config.js)\<close>

text \<open>
  The configuration object is a literal; only three strings come from the process
  environment. Field names follow the JavaScript object, except where two objects
  use the same key for different things: \<open>tx.amount\<close> is \<open>tx_amount\<close>,
  \<open>tx.fee\<close> is \<open>tx_fee\<close> and \<open>fee.amount\<close> is \<open>fee_amount\<close>.
\<close>

record coin =
  denom :: string
  amount :: string

record fee =
  fee_amount :: "coin list"
  gas :: string

datatype slip10 = Hardened nat | Normal nat

record sender_option =
  hdPaths :: "slip10 list list"
  prefix :: string

record sender_conf =
  mnemonic :: string
  option :: sender_option

record blockchain_conf =
  chain_id :: string
  rpc_endpoint :: string

record tx_conf =
  tx_amount :: coin
  tx_fee :: fee

record limit_conf =
  limit_address :: nat
  limit_ip :: nat

record conf =
  port :: nat
  db_path :: string
  project :: "(string \<times> string) list"
  blockchain :: blockchain_conf
  sender :: sender_conf
  tx :: tx_conf
  limit :: limit_conf

record env =
  CHAIN_ID :: "string option"
  RPC_ENDPOINT :: "string option"
  FAUCET_MNEMONIC :: "string option"

text \<open>\<open>process.env.X || ""\<close>: an unset or empty variable gives the empty string.\<close>

definition or_default :: "string option \<Rightarrow> string \<Rightarrow> string" where
  "or_default v d = (case v of None \<Rightarrow> d | Some s \<Rightarrow> if s = [] then d else s)"

definition project_deployer :: string where
  \<open>project_deployer = ''<a href="#">Int3face</a>''\<close>

definition config :: "env \<Rightarrow> conf" where
  \<open>config e =
    \<lparr> port = 3838,
      db_path = ''./db/faucet.db'',
      project =
        [ (''name'', ''Int3face''),
          (''logo'', ''https://raw.githubusercontent.com/cosmos/chain-registry/master/int3face/images/int3.png''),
          (''deployer'', project_deployer) ],
      blockchain =
        \<lparr> chain_id = or_default (CHAIN_ID e) [],
          rpc_endpoint = or_default (RPC_ENDPOINT e) [] \<rparr>,
      sender =
        \<lparr> mnemonic = or_default (FAUCET_MNEMONIC e) [],
          option =
            \<lparr> hdPaths = [[Hardened 44, Hardened 118, Hardened 0, Normal 0, Normal 0]],
              prefix = ''int3'' \<rparr> \<rparr>,
      tx =
        \<lparr> tx_amount = \<lparr> denom = ''uint3'', amount = ''1000000'' \<rparr>,
          tx_fee =
            \<lparr> fee_amount = [\<lparr> denom = ''uint3'', amount = ''1000'' \<rparr>],
              gas = ''200000'' \<rparr> \<rparr>,
      limit = \<lparr> limit_address = 5, limit_ip = 5 \<rparr> \<rparr>\<close>

section \<open>Values, errors, responses\<close>

text \<open>
  A thrown value is a JavaScript \<open>Error\<close> carrying its message; the handlers only
  ever look at \<open>error.message\<close>.
\<close>

datatype error = Error (message: string)

datatype json = JStr string | JObj "(string \<times> json) list"

record response =
  status :: nat
  body :: json

record request =
  req_address :: string
  req_ip :: string

text \<open>What \<open>wallet.getAccounts()\<close> and \<open>client.getAccount\<close> return, as far as the faucet reads them.\<close>

record account_data =
  address :: string

record account =
  accountNumber :: nat
  sequence :: nat

section \<open>Collaborators\<close>

text \<open>
  Every call that leaves \<open>faucet.js\<close> is logged in the order it is made, with its
  arguments and with what came back: the call threw, it returned, or (for an admission
  check) it returned a decision. The frequency checker works on a quota state \<open>'q\<close>, the
  RPC client on a chain state \<open>'c\<close>; both are arbitrary state machines whose operations
  either return or throw.
\<close>

datatype event =
    CheckAddress string
  | CheckIp string
  | Update string
  | FromMnemonic string sender_option
  | Connect string
  | ConnectWithSigner string
  | GetChainId
  | GetAccount string
  | GetAllBalances string
  | SendTokens string string "coin list" fee account

datatype outcome = Threw | Returned | Decided bool

record 'q checker =
  checkAddress :: "string \<Rightarrow> 'q \<Rightarrow> (error + bool) \<times> 'q"
  checkIp :: "string \<Rightarrow> 'q \<Rightarrow> (error + bool) \<times> 'q"
  update :: "string \<Rightarrow> 'q \<Rightarrow> 'q"

record 'c cosmjs =
  fromMnemonic :: "string \<Rightarrow> sender_option \<Rightarrow> error + account_data list"
  connect :: "string \<Rightarrow> 'c \<Rightarrow> (error + unit) \<times> 'c"
  connectWithSigner :: "string \<Rightarrow> 'c \<Rightarrow> (error + unit) \<times> 'c"
  getChainId :: "'c \<Rightarrow> (error + string) \<times> 'c"
  getAccount :: "string \<Rightarrow> 'c \<Rightarrow> (error + account option) \<times> 'c"
  getAllBalances :: "string \<Rightarrow> 'c \<Rightarrow> (error + coin list) \<times> 'c"
  sendTokens :: "string \<Rightarrow> string \<Rightarrow> coin list \<Rightarrow> fee \<Rightarrow> account \<Rightarrow> 'c \<Rightarrow> (error + json) \<times> 'c"

record ('q, 'c) world =
  quota :: 'q
  chain :: 'c
  trace :: "(event \<times> outcome) list"

type_synonym ('a, 'w) io = "'w \<Rightarrow> (error + 'a) \<times> 'w"

definition ret :: "'a \<Rightarrow> ('a, 'w) io" where
  "ret a w = (Inr a, w)"

definition throw :: "error \<Rightarrow> ('a, 'w) io" where
  "throw e w = (Inl e, w)"

definition bnd :: "('a, 'w) io \<Rightarrow> ('a \<Rightarrow> ('b, 'w) io) \<Rightarrow> ('b, 'w) io" where
  "bnd m f w = (case m w of (Inl e, w') \<Rightarrow> (Inl e, w') | (Inr a, w') \<Rightarrow> f a w')"

definition try_catch :: "('a, 'w) io \<Rightarrow> (error \<Rightarrow> ('a, 'w) io) \<Rightarrow> ('a, 'w) io" where
  "try_catch m h w = (case m w of (Inl e, w') \<Rightarrow> h e w' | (Inr a, w') \<Rightarrow> (Inr a, w'))"

definition returned :: "error + 'a \<Rightarrow> outcome" where
  "returned r = (case r of Inl e \<Rightarrow> Threw | Inr a \<Rightarrow> Returned)"

definition decided :: "error + bool \<Rightarrow> outcome" where
  "decided r = (case r of Inl e \<Rightarrow> Threw | Inr b \<Rightarrow> Decided b)"

definition check_op :: "event \<Rightarrow> ('q \<Rightarrow> (error + bool) \<times> 'q) \<Rightarrow> (bool, ('q, 'c) world) io" where
  "check_op ev f w =
     (case f (quota w) of (r, q') \<Rightarrow> (r, w\<lparr>quota := q', trace := trace w @ [(ev, decided r)]\<rparr>))"

definition chain_op :: "event \<Rightarrow> ('c \<Rightarrow> (error + 'a) \<times> 'c) \<Rightarrow> ('a, ('q, 'c) world) io" where
  "chain_op ev f w =
     (case f (chain w) of (r, c') \<Rightarrow> (r, w\<lparr>chain := c', trace := trace w @ [(ev, returned r)]\<rparr>))"

definition wallet_op :: "event \<Rightarrow> (error + 'a) \<Rightarrow> ('a, ('q, 'c) world) io" where
  "wallet_op ev r w = (r, w\<lparr>trace := trace w @ [(ev, returned r)]\<rparr>)"

text \<open>\<open>checker.update(key)\<close> is called without \<open>await\<close>: the handler never sees it fail.\<close>

definition update_op :: "'q checker \<Rightarrow> string \<Rightarrow> ('q, 'c) world \<Rightarrow> ('q, 'c) world" where
  "update_op ck key w =
     w\<lparr>quota := update ck key (quota w), trace := trace w @ [(Update key, Returned)]\<rparr>"

section \<open>String helpers\<close>

definition startsWith :: "string \<Rightarrow> string \<Rightarrow> bool" where
  "startsWith s p = (take (length p) s = p)"

fun includes_str :: "string \<Rightarrow> string \<Rightarrow> bool" where
  "includes_str [] n = (n = [])"
| "includes_str (c # s) n = (take (length n) (c # s) = n \<or> includes_str s n)"

section \<open>sendTx (src/faucet.js)\<close>

definition firstOf :: "'a list \<Rightarrow> 'a option" where
  "firstOf xs = (case xs of [] \<Rightarrow> None | x # _ \<Rightarrow> Some x)"

text \<open>Reading \<open>firstAccount.address\<close> when the wallet holds no account is a TypeError.\<close>

definition address_of :: "account_data option \<Rightarrow> (string, 'w) io" where
  "address_of fa =
     (case fa of
        None \<Rightarrow> throw (Error (''Cannot read properties of undefined (reading '' @ [CHR 0x27] @ ''address'' @ [CHR 0x27] @ '')''))
      | Some a \<Rightarrow> ret (address a))"

definition chain_mismatch :: "string \<Rightarrow> string \<Rightarrow> error" where
  "chain_mismatch expected got =
     Error (''Chain-id mismatch: expected '' @ expected @ '', got '' @ got)"

definition account_missing :: "string \<Rightarrow> error" where
  "account_missing a = Error (''Account ['' @ a @ ''] does not exist on the blockchain.'')"

text \<open>
  The last part of the \<open>try\<close> block: the configured amount and fee are validated (an
  empty string is falsy) and the transfer is handed to \<open>client.sendTokens\<close> with the
  account number and sequence just read.
\<close>

definition send_transfer :: "conf \<Rightarrow> 'c cosmjs \<Rightarrow> string \<Rightarrow> string \<Rightarrow> account \<Rightarrow> (json, ('q, 'c) world) io" where
  "send_transfer cf K sender_address recipient acc =
     (let am = tx_amount (tx cf) in
      if amount am = [] \<or> denom am = [] then
        throw (Error ''Invalid transaction amount format in configuration.'')
      else
      let fe = tx_fee (tx cf) in
      if gas fe = [] then
        throw (Error ''Invalid transaction fee format in configuration.'')
      else
        chain_op (SendTokens sender_address recipient [am] fe
                    \<lparr>accountNumber = accountNumber acc, sequence = sequence acc\<rparr>)
                 (sendTokens K sender_address recipient [am] fe
                    \<lparr>accountNumber = accountNumber acc, sequence = sequence acc\<rparr>))"

definition sendTx_try :: "conf \<Rightarrow> 'c cosmjs \<Rightarrow> string \<Rightarrow> (json, ('q, 'c) world) io" where
  "sendTx_try cf K recipient =
     bnd (wallet_op (FromMnemonic (mnemonic (sender cf)) (option (sender cf)))
            (fromMnemonic K (mnemonic (sender cf)) (option (sender cf)))) (\<lambda>wallet.
     let firstAccount = firstOf wallet;
         rpcEndpoint = rpc_endpoint (blockchain cf) in
     bnd (chain_op (ConnectWithSigner rpcEndpoint) (connectWithSigner K rpcEndpoint)) (\<lambda>client.
     bnd (chain_op GetChainId (getChainId K)) (\<lambda>chainId.
     if chainId \<noteq> chain_id (blockchain cf) then
       throw (chain_mismatch (chain_id (blockchain cf)) chainId)
     else
     bnd (address_of firstAccount) (\<lambda>sender_address.
     bnd (chain_op (GetAccount sender_address) (getAccount K sender_address)) (\<lambda>acc.
     case acc of
       None \<Rightarrow> throw (account_missing sender_address)
     | Some account \<Rightarrow> send_transfer cf K sender_address recipient account)))))"

definition sendTx_catch :: "string \<Rightarrow> error \<Rightarrow> error" where
  "sendTx_catch recipient e =
     Error (''Transaction failed for recipient '' @ recipient @ '': '' @ message e)"

definition sendTx :: "conf \<Rightarrow> 'c cosmjs \<Rightarrow> string \<Rightarrow> (json, ('q, 'c) world) io" where
  "sendTx cf K recipient =
     try_catch (sendTx_try cf K recipient) (\<lambda>e. throw (sendTx_catch recipient e))"

section \<open>The /send/:address handler (src/faucet.js)\<close>

definition result_json :: "string \<Rightarrow> json" where
  "result_json s = JObj [(''result'', JStr s)]"

definition address_required :: response where
  "address_required = \<lparr>status = 400, body = result_json ''Address is required.''\<rparr>"

definition not_supported :: "string \<Rightarrow> response" where
  "not_supported a = \<lparr>status = 400, body = result_json (''Address ['' @ a @ ''] is not supported.'')\<rparr>"

definition too_often :: response where
  "too_often = \<lparr>status = 429, body = result_json ''You have requested tokens too often. Please try again later.''\<rparr>"

definition sent :: "json \<Rightarrow> response" where
  "sent result = \<lparr>status = 200, body = JObj [(''result'', result)]\<rparr>"

definition send_catch :: "string \<Rightarrow> error \<Rightarrow> response" where
  "send_catch a e =
     (if message e \<noteq> [] \<and> includes_str (message e) ''does not exist on chain'' then
        \<lparr>status = 400, body = result_json (''Address ['' @ a @ ''] does not exist on the blockchain. Please create the account first.'')\<rparr>
      else
        \<lparr>status = 500, body = result_json ''Failed to send tokens. Please contact the administrator.''\<rparr>)"

definition send_try :: "conf \<Rightarrow> 'q checker \<Rightarrow> 'c cosmjs \<Rightarrow> request \<Rightarrow> (response, ('q, 'c) world) io" where
  "send_try cf ck K req =
     bnd (check_op (CheckAddress (req_address req)) (checkAddress ck (req_address req))) (\<lambda>isAddressAllowed.
     bnd (check_op (CheckIp (req_ip req)) (checkIp ck (req_ip req))) (\<lambda>isIpAllowed.
     if \<not> isAddressAllowed \<or> \<not> isIpAllowed then ret too_often
     else
     (\<lambda>w.
     bnd (sendTx cf K (req_address req)) (\<lambda>result w'.
     ret (sent result) (update_op ck (req_address req) w'))
       (update_op ck (req_ip req) w))))"

definition send_handler :: "conf \<Rightarrow> 'q checker \<Rightarrow> 'c cosmjs \<Rightarrow> request \<Rightarrow> ('q, 'c) world \<Rightarrow> response \<times> ('q, 'c) world" where
  "send_handler cf ck K req w =
     (if req_address req = [] then (address_required, w)
      else if \<not> startsWith (req_address req) (prefix (option (sender cf))) then
        (not_supported (req_address req), w)
      else
        (case send_try cf ck K req w of
           (Inr r, w') \<Rightarrow> (r, w')
         | (Inl e, w') \<Rightarrow> (send_catch (req_address req) e, w')))"

section \<open>The /config.json handler (src/faucet.js)\<close>

text \<open>
  A JavaScript object with string values is an association list in insertion order;
  assigning a property replaces the value of an existing key in place and appends a new
  key (\<open>AList.update\<close>).
\<close>

text \<open>
  \<open>String.prototype.toUpperCase\<close> belongs to the JavaScript runtime and works on all of
  Unicode; the handler takes it as the parameter \<open>toUpperCase\<close>.
\<close>

definition balance_text :: "(string \<Rightarrow> string) \<Rightarrow> coin list \<Rightarrow> string \<Rightarrow> string" where
  "balance_text toUpperCase balance dn =
     (case find (\<lambda>b. denom b = dn) balance of
        Some faucetBalance \<Rightarrow> amount faucetBalance @ '' '' @ toUpperCase dn
      | None \<Rightarrow> ''0 '' @ toUpperCase dn)"

definition json_of :: "(string \<times> string) list \<Rightarrow> json" where
  "json_of obj = JObj (map (\<lambda>(k, v). (k, JStr v)) obj)"

definition config_try :: "(string \<Rightarrow> string) \<Rightarrow> conf \<Rightarrow> 'c cosmjs \<Rightarrow> (response, ('q, 'c) world) io" where
  "config_try toUpperCase cf K =
     bnd (wallet_op (FromMnemonic (mnemonic (sender cf)) (option (sender cf)))
            (fromMnemonic K (mnemonic (sender cf)) (option (sender cf)))) (\<lambda>wallet.
     let firstAccount = firstOf wallet;
         project0 = project cf in
     bnd (address_of firstAccount) (\<lambda>faucetAddress.
     let project1 = AList.update ''faucetAddress'' faucetAddress project0;
         rpcEndpoint = rpc_endpoint (blockchain cf) in
     bnd (chain_op (Connect rpcEndpoint) (connect K rpcEndpoint)) (\<lambda>client.
     bnd (chain_op (GetAllBalances faucetAddress) (getAllBalances K faucetAddress)) (\<lambda>balance.
     let dn = (if denom (tx_amount (tx cf)) = [] then ''uint3'' else denom (tx_amount (tx cf)));
         project2 = AList.update ''faucetBalance'' (balance_text toUpperCase balance dn) project1
     in ret \<lparr>status = 200, body = json_of project2\<rparr>))))"

definition config_handler :: "(string \<Rightarrow> string) \<Rightarrow> conf \<Rightarrow> 'c cosmjs \<Rightarrow> ('q, 'c) world \<Rightarrow> response \<times> ('q, 'c) world" where
  "config_handler toUpperCase cf K w =
     (case config_try toUpperCase cf K w of
        (Inr r, w') \<Rightarrow> (r, w')
      | (Inl e, w') \<Rightarrow>
          (\<lparr>status = 500, body = JObj [(''error'', JStr ''Failed to load configuration.'')]\<rparr>, w'))"

section \<open>The frequency checker\<close>

text \<open>
  Modelled from the spec: \<open>src/checker.js\<close> (the class \<open>FrequencyChecker\<close> with the
  methods \<open>checkAddress\<close>, \<open>checkIp\<close> and \<open>update\<close> that \<open>faucet.js\<close> calls) is not
  among the sources. The spec's limiter keeps one record per rate-limited subject (its
  key and kind, with the ascending list of the instants of its counted events) and has
  two operations. \<open>checkAndReserve\<close> is one atomic operation: fetch the subject's
  record (or an empty one), drop the timestamps older than the 24-hour window, and if
  the remaining count is below the limit configured for the kind, append the current
  instant, persist and allow; otherwise deny without changing the stored state. When
  the store is unavailable the limiter denies. \<open>commit\<close> confirms a reservation already
  made and changes nothing. \<open>checkAddress\<close> and \<open>checkIp\<close> are \<open>checkAndReserve\<close> for the
  kinds \<open>Address\<close> and \<open>Origin\<close>; \<open>update\<close> is \<open>commit\<close>.
\<close>

datatype kind = Address | Origin

record quota_state =
  records :: "kind \<times> string \<Rightarrow> int list"
  now :: int
  available :: bool

definition WINDOW :: int where
  "WINDOW = 24 * 60 * 60 * 1000"

definition live :: "int \<Rightarrow> int list \<Rightarrow> int list" where
  "live t ts = filter (\<lambda>x. \<not> t - x > WINDOW) ts"

definition checkAndReserve :: "nat \<Rightarrow> kind \<Rightarrow> string \<Rightarrow> quota_state \<Rightarrow> (error + bool) \<times> quota_state" where
  "checkAndReserve lim kd key q =
     (if \<not> available q then (Inr False, q)
      else if length (live (now q) (records q (kd, key))) < lim then
        (Inr True, q\<lparr>records := (records q)((kd, key) := live (now q) (records q (kd, key)) @ [now q])\<rparr>)
      else (Inr False, q))"

definition commit :: "string \<Rightarrow> quota_state \<Rightarrow> quota_state" where
  "commit key q = q"

definition FrequencyChecker :: "conf \<Rightarrow> quota_state checker" where
  "FrequencyChecker cf =
     \<lparr> checkAddress = checkAndReserve (limit_address (limit cf)) Address,
       checkIp = checkAndReserve (limit_ip (limit cf)) Origin,
       update = commit \<rparr>"

text \<open>The allowance a subject has left under a limit: the events it may still have counted.\<close>

definition remaining :: "nat \<Rightarrow> kind \<Rightarrow> string \<Rightarrow> quota_state \<Rightarrow> nat" where
  "remaining lim kd key q = lim - length (live (now q) (records q (kd, key)))"

section \<open>Test doubles for the wallet and the chain\<close>

text \<open>
  Two stand-ins for the CosmJS wallet and client, used to run the handlers on concrete
  inputs. \<open>ordered_chain\<close> accepts a transfer only when it carries the sender's current
  account number and sequence, and then advances the sequence by one; \<open>lax_chain\<close>
  accepts every transfer.
\<close>

record chain_state =
  net_id :: string
  accounts :: "string \<Rightarrow> account option"
  balances :: "string \<Rightarrow> coin list"

definition ordered_chain :: "chain_state cosmjs" where
  "ordered_chain =
     \<lparr> fromMnemonic = (\<lambda>m opt. if m = [] then Inl (Error ''Invalid mnemonic'')
                               else Inr [\<lparr>address = prefix opt @ ''1faucet''\<rparr>]),
       connect = (\<lambda>rpc c. (Inr (), c)),
       connectWithSigner = (\<lambda>rpc c. (Inr (), c)),
       getChainId = (\<lambda>c. (Inr (net_id c), c)),
       getAccount = (\<lambda>a c. (Inr (accounts c a), c)),
       getAllBalances = (\<lambda>a c. (Inr (balances c a), c)),
       sendTokens = (\<lambda>from to coins fe signer c.
          if accounts c from = Some signer then
            (Inr (JObj [(''code'', JStr ''0'')]),
             c\<lparr>accounts := (accounts c)(from := Some (signer\<lparr>sequence := sequence signer + 1\<rparr>))\<rparr>)
          else (Inl (Error ''account sequence mismatch''), c)) \<rparr>"


definition test_env :: env where
  "test_env = \<lparr>CHAIN_ID = Some ''int3-test'', RPC_ENDPOINT = Some ''http://localhost:26657'',
                FAUCET_MNEMONIC = Some ''abandon abandon about''\<rparr>"

definition test_chain :: chain_state where
  "test_chain =
     \<lparr> net_id = ''int3-test'',
       accounts = (\<lambda>a. if a = ''int31faucet'' then Some \<lparr>accountNumber = 7, sequence = 0\<rparr> else None),
       balances = (\<lambda>a. if a = ''int31faucet'' then [\<lparr>denom = ''uint3'', amount = ''5000000''\<rparr>] else []) \<rparr>"

definition test_quota :: quota_state where
  "test_quota = \<lparr>records = (\<lambda>k. []), now = 1000, available = True\<rparr>"

definition test_world :: "(quota_state, chain_state) world" where
  "test_world = \<lparr>quota = test_quota, chain = test_chain, trace = []\<rparr>"

section \<open>Requests in flight\<close>

text \<open>
  The handler is an \<open>async\<close> function: it runs until it awaits a collaborator, and other
  requests run while it waits. A task is a request suspended at one of its \<open>await\<close>s,
  holding what the handler has in its local variables there; a step performs the
  awaited call and the code up to the next \<open>await\<close>.
\<close>

datatype task =
    Received request
  | CheckedAddress request bool
  | CheckedIp request bool bool
  | GotWallet request "account_data list"
  | GotAccounts request "account_data option"
  | Connected request "account_data option"
  | GotChainId request "account_data option" string
  | GotAccount request string "account option"
  | Sent request json
  | Done response

definition failed :: "request \<Rightarrow> error \<Rightarrow> task" where
  "failed req e = Done (send_catch (req_address req) (sendTx_catch (req_address req) e))"

fun step :: "conf \<Rightarrow> 'q checker \<Rightarrow> 'c cosmjs \<Rightarrow> task \<Rightarrow> ('q, 'c) world \<Rightarrow> task \<times> ('q, 'c) world" where
  "step cf ck K (Received req) w =
     (if req_address req = [] then (Done address_required, w)
      else if \<not> startsWith (req_address req) (prefix (option (sender cf))) then
        (Done (not_supported (req_address req)), w)
      else
        (case check_op (CheckAddress (req_address req)) (checkAddress ck (req_address req)) w of
           (Inl e, w') \<Rightarrow> (Done (send_catch (req_address req) e), w')
         | (Inr isAddressAllowed, w') \<Rightarrow> (CheckedAddress req isAddressAllowed, w')))"
| "step cf ck K (CheckedAddress req isAddressAllowed) w =
     (case check_op (CheckIp (req_ip req)) (checkIp ck (req_ip req)) w of
        (Inl e, w') \<Rightarrow> (Done (send_catch (req_address req) e), w')
      | (Inr isIpAllowed, w') \<Rightarrow> (CheckedIp req isAddressAllowed isIpAllowed, w'))"
| "step cf ck K (CheckedIp req isAddressAllowed isIpAllowed) w =
     (if \<not> isAddressAllowed \<or> \<not> isIpAllowed then (Done too_often, w)
      else
        (case wallet_op (FromMnemonic (mnemonic (sender cf)) (option (sender cf)))
                (fromMnemonic K (mnemonic (sender cf)) (option (sender cf)))
                (update_op ck (req_ip req) w) of
           (Inl e, w') \<Rightarrow> (failed req e, w')
         | (Inr wallet, w') \<Rightarrow> (GotWallet req wallet, w')))"
| "step cf ck K (GotWallet req wallet) w = (GotAccounts req (firstOf wallet), w)"
| "step cf ck K (GotAccounts req firstAccount) w =
     (case chain_op (ConnectWithSigner (rpc_endpoint (blockchain cf)))
             (connectWithSigner K (rpc_endpoint (blockchain cf))) w of
        (Inl e, w') \<Rightarrow> (failed req e, w')
      | (Inr client, w') \<Rightarrow> (Connected req firstAccount, w'))"
| "step cf ck K (Connected req firstAccount) w =
     (case chain_op GetChainId (getChainId K) w of
        (Inl e, w') \<Rightarrow> (failed req e, w')
      | (Inr chainId, w') \<Rightarrow> (GotChainId req firstAccount chainId, w'))"
| "step cf ck K (GotChainId req firstAccount chainId) w =
     (if chainId \<noteq> chain_id (blockchain cf) then
        (failed req (chain_mismatch (chain_id (blockchain cf)) chainId), w)
      else
        (case bnd (address_of firstAccount) (\<lambda>sender_address.
                bnd (chain_op (GetAccount sender_address) (getAccount K sender_address)) (\<lambda>acc.
                ret (sender_address, acc))) w of
           (Inl e, w') \<Rightarrow> (failed req e, w')
         | (Inr (sender_address, acc), w') \<Rightarrow> (GotAccount req sender_address acc, w')))"
| "step cf ck K (GotAccount req sender_address acc) w =
     (case acc of
        None \<Rightarrow> (failed req (account_missing sender_address), w)
      | Some account \<Rightarrow>
          (case send_transfer cf K sender_address (req_address req) account w of
             (Inl e, w') \<Rightarrow> (failed req e, w')
           | (Inr result, w') \<Rightarrow> (Sent req result, w')))"
| "step cf ck K (Sent req result) w = (Done (sent result), update_op ck (req_address req) w)"
| "step cf ck K (Done r) w = (Done r, w)"

text \<open>
  A schedule names, step by step, the task that runs next; a number that names no task
  is skipped.
\<close>

fun run :: "conf \<Rightarrow> 'q checker \<Rightarrow> 'c cosmjs \<Rightarrow> nat list \<Rightarrow> task list \<times> ('q, 'c) world \<Rightarrow> task list \<times> ('q, 'c) world" where
  "run cf ck K [] s = s"
| "run cf ck K (i # sched) (ts, w) =
     (if i < length ts then
        (case step cf ck K (ts ! i) w of (t', w') \<Rightarrow> run cf ck K sched (ts[i := t'], w'))
      else run cf ck K sched (ts, w))"



definition status_of :: "task \<Rightarrow> nat option" where
  "status_of t = (case t of Done r \<Rightarrow> Some (status r) | _ \<Rightarrow> None)"

section \<open>Observations on the trace\<close>

text \<open>
  The calls a request has added to the trace, and whether the calls of a dispatch
  (everything \<open>sendTx\<close> does) are among them.
\<close>

definition appended :: "('q, 'c) world \<Rightarrow> ('q, 'c) world \<Rightarrow> (event \<times> outcome) list" where
  "appended w w' = drop (length (trace w)) (trace w')"

fun is_dispatch :: "event \<Rightarrow> bool" where
  "is_dispatch (FromMnemonic m opt) = True"
| "is_dispatch (ConnectWithSigner rpc) = True"
| "is_dispatch GetChainId = True"
| "is_dispatch (GetAccount a) = True"
| "is_dispatch (SendTokens from to coins fe signer) = True"
| "is_dispatch _ = False"

definition dispatched :: "(event \<times> outcome) list \<Rightarrow> bool" where
  "dispatched tr = list_ex (\<lambda>x. is_dispatch (fst x)) tr"

text \<open>An action keeps a component \<open>g\<close> of the world when no run of it changes \<open>g\<close>.\<close>

definition keeps :: "('w \<Rightarrow> 'x) \<Rightarrow> ('a, 'w) io \<Rightarrow> bool" where
  "keeps g m = (\<forall>w. g (snd (m w)) = g w)"

section \<open>Test inputs\<close>

definition test_conf :: conf where
  "test_conf = config test_env"

definition req_abc :: request where
  "req_abc = \<lparr>req_address = ''int31abc'', req_ip = ''10.0.0.1''\<rparr>"


definition req_foreign :: request where
  "req_foreign = \<lparr>req_address = ''cosmos1abc'', req_ip = ''10.0.0.1''\<rparr>"

text \<open>A store in which the address \<open>int31abc\<close> has used its five events of the window.\<close>

definition spent_quota :: quota_state where
  "spent_quota =
     \<lparr>records = (\<lambda>k. if k = (Address, ''int31abc'') then [100, 200, 300, 400, 500] else []),
      now = 1000, available = True\<rparr>"

text \<open>
  Checkers that are not the spec's: one whose checks raise, and one whose address check
  denies and whose origin check raises.
\<close>

definition raising_checker :: "quota_state checker" where
  "raising_checker =
     \<lparr> checkAddress = (\<lambda>key q. (Inl (Error ''Database is not open''), q)),
       checkIp = (\<lambda>key q. (Inl (Error ''Database is not open''), q)),
       update = (\<lambda>key q. q) \<rparr>"

definition deny_then_raise :: "quota_state checker" where
  "deny_then_raise =
     \<lparr> checkAddress = (\<lambda>key q. (Inr False, q)),
       checkIp = (\<lambda>key q. (Inl (Error ''Database is not open''), q)),
       update = (\<lambda>key q. q) \<rparr>"

text \<open>A client whose broadcast is always rejected, and a chain with another identity.\<close>

definition rejecting_chain :: "chain_state cosmjs" where
  "rejecting_chain =
     ordered_chain\<lparr>sendTokens := (\<lambda>from to coins fe signer c. (Inl (Error ''Broadcasting transaction failed''), c))\<rparr>"

definition other_chain :: chain_state where
  "other_chain = test_chain\<lparr>net_id := ''int3-main''\<rparr>"

definition unfunded_chain :: chain_state where
  "unfunded_chain = test_chain\<lparr>accounts := (\<lambda>a. None)\<rparr>"

text \<open>\<open>toUpperCase\<close> on the ASCII letters, for running /config.json on a concrete input.\<close>

definition ascii_upper :: "string \<Rightarrow> string" where
  "ascii_upper s =
     map (\<lambda>c. if 97 \<le> (of_char c :: nat) \<and> (of_char c :: nat) \<le> 122
              then char_of ((of_char c :: nat) - 32) else c) s"

section \<open>The ordering of the broadcasts\<close>












section \<open>Requests in flight while the clock runs\<close>

text \<open>
  The window of the limiter is a span of time, so the requests in flight are run here
  together with the clock of the store: a move is a step of one of the requests, or the
  passing of some milliseconds. The checker is the limiter of the spec. Every admission
  check that returns ``allowed'' is logged with the instant it was made at and its
  subject (kind and key).
\<close>

datatype move = Step nat | Tick nat

type_synonym grant = "int \<times> kind \<times> string"

fun granted :: "int \<Rightarrow> event \<times> outcome \<Rightarrow> grant option" where
  "granted t (CheckAddress key, Decided True) = Some (t, Address, key)"
| "granted t (CheckIp key, Decided True) = Some (t, Origin, key)"
| "granted t _ = None"

definition tick :: "nat \<Rightarrow> (quota_state, 'c) world \<Rightarrow> (quota_state, 'c) world" where
  "tick d w = w\<lparr>quota := (quota w)\<lparr>now := now (quota w) + int d\<rparr>\<rparr>"

fun play :: "conf \<Rightarrow> 'c cosmjs \<Rightarrow> move list \<Rightarrow> task list \<times> (quota_state, 'c) world \<times> grant list
               \<Rightarrow> task list \<times> (quota_state, 'c) world \<times> grant list" where
  "play cf K [] s = s"
| "play cf K (Step i # ms) (ts, w, log) =
     (if i < length ts then
        (case step cf (FrequencyChecker cf) K (ts ! i) w of
           (t', w') \<Rightarrow>
             play cf K ms (ts[i := t'], w',
                           log @ List.map_filter (granted (now (quota w))) (appended w w')))
      else play cf K ms (ts, w, log))"
| "play cf K (Tick d # ms) (ts, w, log) = play cf K ms (ts, tick d w, log)"

text \<open>The limit configured for a kind of subject.\<close>

fun limit_of :: "conf \<Rightarrow> kind \<times> string \<Rightarrow> nat" where
  "limit_of cf (Address, key) = limit_address (limit cf)"
| "limit_of cf (Origin, key) = limit_ip (limit cf)"

text \<open>
  The logged grants of a subject in the 24 hours that end at \<open>T\<close>; those at or after an
  instant \<open>b\<close>; and the instants at or after \<open>b\<close> in the stored record of the subject.
\<close>

definition in_window :: "int \<Rightarrow> kind \<times> string \<Rightarrow> grant list \<Rightarrow> nat" where
  "in_window T k h = length (filter (\<lambda>x. snd x = k \<and> T - WINDOW \<le> fst x \<and> fst x \<le> T) h)"

definition since :: "int \<Rightarrow> kind \<times> string \<Rightarrow> grant list \<Rightarrow> nat" where
  "since b k h = length (filter (\<lambda>x. snd x = k \<and> b \<le> fst x) h)"

definition stored_since :: "int \<Rightarrow> kind \<times> string \<Rightarrow> quota_state \<Rightarrow> nat" where
  "stored_since b k q = length (filter (\<lambda>x. b \<le> x) (records q k))"

text \<open>
  The invariant of the limiter: no logged grant is later than the clock, every logged
  grant the window can still see is in the store, and no window holds more grants of a
  subject than its limit.
\<close>

definition quota_inv :: "(kind \<times> string \<Rightarrow> nat) \<Rightarrow> grant list \<Rightarrow> quota_state \<Rightarrow> bool" where
  "quota_inv lim h q \<longleftrightarrow>
     (\<forall>x \<in> set h. fst x \<le> now q)
   \<and> (\<forall>k b. now q - WINDOW \<le> b \<longrightarrow> since b k h \<le> stored_since b k q)
   \<and> (\<forall>k T. in_window T k h \<le> lim k)"

text \<open>A configuration that allows one event per address and per origin in the window.\<close>

definition strict_conf :: conf where
  "strict_conf = test_conf\<lparr>limit := \<lparr>limit_address = 1, limit_ip = 1\<rparr>\<rparr>"

text \<open>
  Two requests for the same recipient from the same origin, the second arriving half a
  second after the first: their checks alternate, then each runs to its end.
\<close>

definition checks_alternate :: "move list" where
  "checks_alternate =
     [Step 0, Tick 500, Step 1, Step 0, Step 1, Step 1,
      Step 0, Step 0, Step 0, Step 0, Step 0, Step 0, Step 0]"

section \<open>Properties\<close>

subsection \<open>Actions that leave the quota state alone\<close>

lemmas io_defs = bnd_def ret_def throw_def try_catch_def check_op_def chain_op_def
  wallet_op_def update_op_def returned_def decided_def

lemma keeps_ret: "keeps g (ret a)"
  by (simp add: keeps_def ret_def)

lemma keeps_throw: "keeps g (throw e)"
  by (simp add: keeps_def throw_def)

lemma keeps_bnd: "keeps g m \<Longrightarrow> (\<And>a. keeps g (f a)) \<Longrightarrow> keeps g (bnd m f)"
  by (auto simp add: keeps_def bnd_def split: prod.splits sum.splits) (metis snd_conv)+

lemma keeps_try_catch: "keeps g m \<Longrightarrow> (\<And>e. keeps g (h e)) \<Longrightarrow> keeps g (try_catch m h)"
  by (auto simp add: keeps_def try_catch_def split: prod.splits sum.splits) (metis snd_conv)+

lemma keeps_quota_chain_op: "keeps quota (chain_op ev f)"
  by (simp add: keeps_def chain_op_def split: prod.splits)

lemma keeps_quota_wallet_op: "keeps quota (wallet_op ev r)"
  by (simp add: keeps_def wallet_op_def)

lemma keeps_address_of: "keeps g (address_of fa)"
  by (cases fa) (simp_all add: address_of_def keeps_ret keeps_throw)

lemma keeps_quota_send_transfer: "keeps quota (send_transfer cf K a r acc)"
  by (simp add: send_transfer_def Let_def keeps_throw keeps_quota_chain_op)

lemma keeps_quota_sendTx_try: "keeps quota (sendTx_try cf K r)"
  unfolding sendTx_try_def Let_def
  by (intro keeps_bnd keeps_quota_wallet_op keeps_quota_chain_op keeps_address_of)
     (simp_all add: keeps_throw keeps_quota_send_transfer keeps_bnd keeps_address_of keeps_quota_chain_op split: option.splits)

lemma keeps_quota_sendTx: "keeps quota (sendTx cf K r)"
  unfolding sendTx_def by (intro keeps_try_catch keeps_quota_sendTx_try keeps_throw)

lemma sendTx_quota: "quota (snd (sendTx cf K r w)) = quota w"
  using keeps_quota_sendTx unfolding keeps_def by blast

subsection \<open>The shape of a run of the /send handler\<close>

lemma send_transfer_success:
  assumes "send_transfer cf K a rcpt acc w = (Inr result, w')"
  shows "trace w' = trace w @ [(SendTokens a rcpt [tx_amount (tx cf)] (tx_fee (tx cf))
                                  \<lparr>accountNumber = accountNumber acc, sequence = sequence acc\<rparr>, Returned)]
       \<and> sendTokens K a rcpt [tx_amount (tx cf)] (tx_fee (tx cf))
            \<lparr>accountNumber = accountNumber acc, sequence = sequence acc\<rparr> (chain w) = (Inr result, chain w')"
  using assms
  by (auto simp add: send_transfer_def io_defs Let_def split: if_splits prod.splits)

lemma sendTx_success:
  assumes "sendTx cf K rcpt w = (Inr result, w')"
  shows "\<exists>wallet fa (acc :: account).
           fromMnemonic K (mnemonic (sender cf)) (option (sender cf)) = Inr wallet
         \<and> firstOf wallet = Some fa
         \<and> trace w' = trace w @
             [(FromMnemonic (mnemonic (sender cf)) (option (sender cf)), Returned),
              (ConnectWithSigner (rpc_endpoint (blockchain cf)), Returned),
              (GetChainId, Returned),
              (GetAccount (address fa), Returned),
              (SendTokens (address fa) rcpt [tx_amount (tx cf)] (tx_fee (tx cf))
                 \<lparr>accountNumber = accountNumber acc, sequence = sequence acc\<rparr>, Returned)]"
proof -
  from assms have t: "sendTx_try cf K rcpt w = (Inr result, w')"
    by (auto simp add: sendTx_def try_catch_def throw_def split: prod.splits sum.splits)
  then obtain wallet where wl: "fromMnemonic K (mnemonic (sender cf)) (option (sender cf)) = Inr wallet"
    by (cases "fromMnemonic K (mnemonic (sender cf)) (option (sender cf))")
       (auto simp add: sendTx_try_def bnd_def wallet_op_def)
  from t wl obtain fa where fa: "firstOf wallet = Some fa"
    by (cases "firstOf wallet")
       (auto simp add: sendTx_try_def address_of_def io_defs Let_def split: prod.splits sum.splits if_splits)
  from t wl fa obtain acc :: account and w1 where
    "send_transfer cf K (address fa) rcpt acc w1 = (Inr result, w')"
    "trace w1 = trace w @
       [(FromMnemonic (mnemonic (sender cf)) (option (sender cf)), Returned),
        (ConnectWithSigner (rpc_endpoint (blockchain cf)), Returned),
        (GetChainId, Returned),
        (GetAccount (address fa), Returned)]"
    by (auto simp add: sendTx_try_def address_of_def io_defs Let_def
        split: prod.splits sum.splits if_splits option.splits)
  with send_transfer_success [of cf K "address fa" rcpt acc w1 result w'] wl fa
  have "fromMnemonic K (mnemonic (sender cf)) (option (sender cf)) = Inr wallet
         \<and> firstOf wallet = Some fa
         \<and> trace w' = trace w @
             [(FromMnemonic (mnemonic (sender cf)) (option (sender cf)), Returned),
              (ConnectWithSigner (rpc_endpoint (blockchain cf)), Returned),
              (GetChainId, Returned),
              (GetAccount (address fa), Returned),
              (SendTokens (address fa) rcpt [tx_amount (tx cf)] (tx_fee (tx cf))
                 \<lparr>accountNumber = accountNumber acc, sequence = sequence acc\<rparr>, Returned)]"
    by simp
  then show ?thesis by blast
qed

lemma send_handler_admitted:
  assumes "req_address req \<noteq> []"
    and "startsWith (req_address req) (prefix (option (sender cf)))"
    and "checkAddress ck (req_address req) (quota w) = (Inr True, q1)"
    and "checkIp ck (req_ip req) q1 = (Inr True, q2)"
    and "sendTx cf K (req_address req)
           (update_op ck (req_ip req)
              (w\<lparr>quota := q2,
                 trace := trace w @ [(CheckAddress (req_address req), Decided True),
                                     (CheckIp (req_ip req), Decided True)]\<rparr>)) = (rs, w2)"
  shows "send_handler cf ck K req w =
           (case rs of
              Inr result \<Rightarrow> (sent result, update_op ck (req_address req) w2)
            | Inl e \<Rightarrow> (send_catch (req_address req) e, w2))"
  using assms
  by (simp add: send_handler_def send_try_def bnd_def ret_def check_op_def decided_def
      split: sum.splits)

lemma status_send_catch: "status (send_catch a e) \<noteq> 200"
  by (simp add: send_catch_def)

lemma send_handler_not_admitted:
  assumes "checkAddress ck (req_address req) (quota w) = (ra, q1)"
    and "checkIp ck (req_ip req) q1 = (ri, q2)"
    and "req_address req = [] \<or> \<not> startsWith (req_address req) (prefix (option (sender cf)))
         \<or> ra \<noteq> Inr True \<or> ri \<noteq> Inr True"
  shows "status (fst (send_handler cf ck K req w)) \<noteq> 200"
  using assms
  by (auto simp add: send_handler_def send_try_def bnd_def ret_def check_op_def
      address_required_def not_supported_def too_often_def send_catch_def
      split: sum.splits prod.splits)

subsection \<open>Rejection of a recipient without the address prefix\<close>

text \<open>
  C4. A request whose recipient address does not start with the configured prefix is
  answered with status 400 and an invalid-recipient message (``Address is required.''
  for the empty address, ``Address [..] is not supported.'' otherwise), and the world
  is returned as it was: the quota state and the chain state are unchanged and no
  call to the frequency checker, the wallet or the chain has been made.
\<close>

theorem send_rejects_wrong_prefix:
  assumes "\<not> startsWith (req_address req) (prefix (option (sender cf)))"
  shows "status (fst (send_handler cf ck K req w)) = 400
       \<and> fst (send_handler cf ck K req w) =
           (if req_address req = [] then address_required else not_supported (req_address req))
       \<and> snd (send_handler cf ck K req w) = w"
  using assms by (simp add: send_handler_def address_required_def not_supported_def)

theorem send_rejects_wrong_prefix_witness:
  "\<not> startsWith (req_address req_foreign) (prefix (option (sender test_conf)))
   \<and> send_handler test_conf (FrequencyChecker test_conf) ordered_chain req_foreign test_world
       = (not_supported ''cosmos1abc'', test_world)"
proof -
  have h: "\<not> startsWith (req_address req_foreign) (prefix (option (sender test_conf)))"
    by (simp add: startsWith_def test_conf_def config_def req_foreign_def)
  from send_rejects_wrong_prefix [OF h, where ck = "FrequencyChecker test_conf"
      and K = ordered_chain and w = test_world] h
  show ?thesis by (simp add: prod_eq_iff req_foreign_def)
qed

subsection \<open>A chain with another identity\<close>

text \<open>
  C6. In \<open>sendTx\<close>, when the wallet is built, the client connects and the chain it is
  connected to reports an identity other than the configured one, the attempt throws
  the chain-id mismatch error (rewrapped by the \<open>catch\<close> of \<open>sendTx\<close>). The only calls made
  are \<open>fromMnemonic\<close>, \<open>connectWithSigner\<close> and \<open>getChainId\<close>: the account is not read
  and no transfer is built, signed or broadcast.
\<close>

theorem chain_id_mismatch_fails:
  assumes "fromMnemonic K (mnemonic (sender cf)) (option (sender cf)) = Inr wallet"
    and "connectWithSigner K (rpc_endpoint (blockchain cf)) (chain w) = (Inr (), c1)"
    and "getChainId K c1 = (Inr chainId, c2)"
    and "chainId \<noteq> chain_id (blockchain cf)"
  shows "sendTx cf K recipient w =
           (Inl (sendTx_catch recipient (chain_mismatch (chain_id (blockchain cf)) chainId)),
            w\<lparr>chain := c2,
              trace := trace w @
                [(FromMnemonic (mnemonic (sender cf)) (option (sender cf)), Returned),
                 (ConnectWithSigner (rpc_endpoint (blockchain cf)), Returned),
                 (GetChainId, Returned)]\<rparr>)"
  using assms
  by (simp add: sendTx_def sendTx_try_def io_defs Let_def)


theorem chain_id_mismatch_fails_witness:
  "sendTx test_conf ordered_chain ''int31abc'' (test_world\<lparr>chain := other_chain\<rparr>) =
     (Inl (Error ''Transaction failed for recipient int31abc: Chain-id mismatch: expected int3-test, got int3-main''),
      test_world\<lparr>chain := other_chain,
        trace := [(FromMnemonic ''abandon abandon about'' (option (sender test_conf)), Returned),
                  (ConnectWithSigner ''http://localhost:26657'', Returned),
                  (GetChainId, Returned)]\<rparr>)"
proof -
  have a: "fromMnemonic ordered_chain (mnemonic (sender test_conf)) (option (sender test_conf))
             = Inr [\<lparr>address = ''int31faucet''\<rparr>]"
    by (simp add: ordered_chain_def test_conf_def config_def test_env_def or_default_def)
  have b: "connectWithSigner ordered_chain (rpc_endpoint (blockchain test_conf))
             (chain (test_world\<lparr>chain := other_chain\<rparr>)) = (Inr (), other_chain)"
    by (simp add: ordered_chain_def)
  have c: "getChainId ordered_chain other_chain = (Inr ''int3-main'', other_chain)"
    by (simp add: ordered_chain_def other_chain_def test_chain_def)
  have d: "''int3-main'' \<noteq> chain_id (blockchain test_conf)"
    by (simp add: test_conf_def config_def test_env_def or_default_def)
  from chain_id_mismatch_fails [OF a b c d, of "''int31abc''"]
  show ?thesis
    by (simp add: sendTx_catch_def chain_mismatch_def test_conf_def config_def test_env_def
        or_default_def test_world_def)
qed

subsection \<open>A check that raises\<close>

text \<open>
  C7. For a request that passes the syntactic validation, if the check keyed by the
  recipient address raises, or it returns a decision and the check keyed by the origin
  raises, the request is answered from the \<open>catch\<close> block with a failure (status 400 or
  500). The chain state is untouched, none of the calls of a dispatch is made, and no
  \<open>update\<close> is made either.
\<close>

theorem check_failure_denies:
  assumes "req_address req \<noteq> []"
    and "startsWith (req_address req) (prefix (option (sender cf)))"
    and "checkAddress ck (req_address req) (quota w) = (ra, q1)"
    and "checkIp ck (req_ip req) q1 = (ri, q2)"
    and "ra = Inl e \<or> ((\<exists>a. ra = Inr a) \<and> ri = Inl e)"
  shows "fst (send_handler cf ck K req w) = send_catch (req_address req) e
       \<and> status (fst (send_handler cf ck K req w)) \<in> {400, 500}
       \<and> chain (snd (send_handler cf ck K req w)) = chain w
       \<and> \<not> dispatched (appended w (snd (send_handler cf ck K req w)))
       \<and> (Update (req_ip req), Returned) \<notin> set (appended w (snd (send_handler cf ck K req w)))
       \<and> (Update (req_address req), Returned) \<notin> set (appended w (snd (send_handler cf ck K req w)))"
  using assms
  by (auto simp add: send_handler_def send_try_def send_catch_def io_defs dispatched_def appended_def
      split: prod.splits sum.splits)

theorem check_failure_denies_witness:
  "send_handler test_conf raising_checker ordered_chain req_abc test_world
   = (\<lparr>status = 500, body = result_json ''Failed to send tokens. Please contact the administrator.''\<rparr>,
      test_world\<lparr>trace := [(CheckAddress ''int31abc'', Threw)]\<rparr>)"
proof -
  have v1: "req_address req_abc \<noteq> []"
    by (simp add: req_abc_def)
  have v2: "startsWith (req_address req_abc) (prefix (option (sender test_conf)))"
    by (simp add: startsWith_def test_conf_def config_def req_abc_def)
  have ca: "checkAddress raising_checker (req_address req_abc) (quota test_world)
              = (Inl (Error ''Database is not open''), test_quota)"
    by (simp add: raising_checker_def test_world_def)
  have ci: "checkIp raising_checker (req_ip req_abc) test_quota
              = (Inl (Error ''Database is not open''), test_quota)"
    by (simp add: raising_checker_def)
  have e: "Inl (Error ''Database is not open'') = Inl (Error ''Database is not open'')
           \<or> ((\<exists>a. Inl (Error ''Database is not open'') = (Inr a :: error + bool))
               \<and> Inl (Error ''Database is not open'') = Inl (Error ''Database is not open''))"
    by simp
  from check_failure_denies [OF v1 v2 ca ci e, where K = ordered_chain]
  have "fst (send_handler test_conf raising_checker ordered_chain req_abc test_world)
          = send_catch (req_address req_abc) (Error ''Database is not open'')"
    by simp
  moreover have "snd (send_handler test_conf raising_checker ordered_chain req_abc test_world)
          = test_world\<lparr>trace := [(CheckAddress ''int31abc'', Threw)]\<rparr>"
    using v1 v2 ca
    by (simp add: send_handler_def send_try_def io_defs req_abc_def test_world_def)
  ultimately show ?thesis
    by (simp add: prod_eq_iff send_catch_def)
qed

subsection \<open>Admission gates the dispatch\<close>

text \<open>
  C5, as the code has it. For a request that passes the syntactic validation, let \<open>ra\<close>
  be what the check keyed by the recipient address gives and \<open>ri\<close> what the check keyed
  by the caller's origin gives. The calls of a dispatch appear in the trace of the
  request only if both checks returned ``allowed''. If both checks return a decision and
  at least one of them denies, the response is the quota-exceeded one (status 429) and
  the request has made no call besides the two checks: no update, no transfer. (The
  handler awaits both checks before it looks at either decision, so a check that raises
  takes the request to the \<open>catch\<close> block whatever the other check decided.)
\<close>

theorem dispatch_requires_both_allowed:
  assumes "req_address req \<noteq> []"
    and "startsWith (req_address req) (prefix (option (sender cf)))"
    and "checkAddress ck (req_address req) (quota w) = (ra, q1)"
    and "checkIp ck (req_ip req) q1 = (ri, q2)"
  shows "(dispatched (appended w (snd (send_handler cf ck K req w))) \<longrightarrow> ra = Inr True \<and> ri = Inr True)
       \<and> ((ra = Inr False \<and> (\<exists>i. ri = Inr i)) \<or> ((\<exists>a. ra = Inr a) \<and> ri = Inr False) \<longrightarrow>
            send_handler cf ck K req w =
              (too_often, w\<lparr>quota := q2,
                 trace := trace w @ [(CheckAddress (req_address req), decided ra),
                                     (CheckIp (req_ip req), decided ri)]\<rparr>))"
  using assms
  by (auto simp add: send_handler_def send_try_def io_defs dispatched_def appended_def
      split: prod.splits sum.splits)



theorem dispatch_requires_both_allowed_witness:
  "send_handler test_conf (FrequencyChecker test_conf) ordered_chain req_abc
     (test_world\<lparr>quota := spent_quota\<rparr>)
   = (too_often,
      test_world\<lparr>quota := spent_quota\<lparr>records := (records spent_quota)((Origin, ''10.0.0.1'') := [1000])\<rparr>,
        trace := [(CheckAddress ''int31abc'', Decided False), (CheckIp ''10.0.0.1'', Decided True)]\<rparr>)"
proof -
  have v1: "req_address req_abc \<noteq> []"
    by (simp add: req_abc_def)
  have v2: "startsWith (req_address req_abc) (prefix (option (sender test_conf)))"
    by (simp add: startsWith_def test_conf_def config_def req_abc_def)
  have ca: "checkAddress (FrequencyChecker test_conf) (req_address req_abc)
              (quota (test_world\<lparr>quota := spent_quota\<rparr>)) = (Inr False, spent_quota)"
    by (simp add: FrequencyChecker_def checkAndReserve_def spent_quota_def live_def WINDOW_def
        test_conf_def config_def req_abc_def)
  have ci: "checkIp (FrequencyChecker test_conf) (req_ip req_abc) spent_quota
              = (Inr True, spent_quota\<lparr>records := (records spent_quota)((Origin, ''10.0.0.1'') := [1000])\<rparr>)"
    by (simp add: FrequencyChecker_def checkAndReserve_def spent_quota_def live_def WINDOW_def
        test_conf_def config_def req_abc_def)
  from dispatch_requires_both_allowed [OF v1 v2 ca ci, of ordered_chain]
  show ?thesis
    by (auto simp add: decided_def req_abc_def test_world_def)
qed

text \<open>
  C5, as stated, fails when one check denies and the other raises: the address check
  denies, the origin check raises, and the request is answered with the generic
  failure (status 500) from the \<open>catch\<close> block, not with the quota-exceeded response. No
  transfer is attempted there either.
\<close>

theorem deny_and_raise_counterexample:
  "send_handler test_conf deny_then_raise ordered_chain req_abc test_world
   = (\<lparr>status = 500, body = result_json ''Failed to send tokens. Please contact the administrator.''\<rparr>,
      test_world\<lparr>trace := [(CheckAddress ''int31abc'', Decided False), (CheckIp ''10.0.0.1'', Threw)]\<rparr>)"
  by (simp add: send_handler_def send_try_def send_catch_def io_defs startsWith_def
      deny_then_raise_def test_conf_def config_def req_abc_def test_world_def)

lemma sendTx_success_chain:
  assumes "sendTx cf K rcpt w = (Inr result, w')"
  shows "\<exists>wallet fa (acc :: account) c1 c2 c3.
           fromMnemonic K (mnemonic (sender cf)) (option (sender cf)) = Inr wallet
         \<and> firstOf wallet = Some fa
         \<and> connectWithSigner K (rpc_endpoint (blockchain cf)) (chain w) = (Inr (), c1)
         \<and> getChainId K c1 = (Inr (chain_id (blockchain cf)), c2)
         \<and> getAccount K (address fa) c2 = (Inr (Some acc), c3)
         \<and> sendTokens K (address fa) rcpt [tx_amount (tx cf)] (tx_fee (tx cf))
              \<lparr>accountNumber = accountNumber acc, sequence = sequence acc\<rparr> c3 = (Inr result, chain w')
         \<and> quota w' = quota w
         \<and> trace w' = trace w @
             [(FromMnemonic (mnemonic (sender cf)) (option (sender cf)), Returned),
              (ConnectWithSigner (rpc_endpoint (blockchain cf)), Returned),
              (GetChainId, Returned),
              (GetAccount (address fa), Returned),
              (SendTokens (address fa) rcpt [tx_amount (tx cf)] (tx_fee (tx cf))
                 \<lparr>accountNumber = accountNumber acc, sequence = sequence acc\<rparr>, Returned)]"
proof -
  from assms have t: "sendTx_try cf K rcpt w = (Inr result, w')"
    by (auto simp add: sendTx_def try_catch_def throw_def split: prod.splits sum.splits)
  then obtain wallet where wl: "fromMnemonic K (mnemonic (sender cf)) (option (sender cf)) = Inr wallet"
    by (cases "fromMnemonic K (mnemonic (sender cf)) (option (sender cf))")
       (auto simp add: sendTx_try_def bnd_def wallet_op_def)
  obtain r1 c1 where cn: "connectWithSigner K (rpc_endpoint (blockchain cf)) (chain w) = (r1, c1)"
    by (cases "connectWithSigner K (rpc_endpoint (blockchain cf)) (chain w)")
  from t wl cn have r1: "r1 = Inr ()"
    by (cases r1) (auto simp add: sendTx_try_def io_defs Let_def)
  obtain r2 c2 where ci: "getChainId K c1 = (r2, c2)"
    by (cases "getChainId K c1")
  from t wl cn r1 ci obtain chainId where r2: "r2 = Inr chainId"
    by (cases r2) (auto simp add: sendTx_try_def io_defs Let_def)
  from t wl cn r1 ci r2 have id: "chainId = chain_id (blockchain cf)"
    by (auto simp add: sendTx_try_def io_defs Let_def split: if_splits)
  from t wl cn r1 ci r2 id obtain fa where fa: "firstOf wallet = Some fa"
    by (cases "firstOf wallet") (auto simp add: sendTx_try_def address_of_def io_defs Let_def)
  obtain r3 c3 where ga: "getAccount K (address fa) c2 = (r3, c3)"
    by (cases "getAccount K (address fa) c2")
  from t wl cn r1 ci r2 id fa ga obtain ao where r3: "r3 = Inr ao"
    by (cases r3) (auto simp add: sendTx_try_def address_of_def io_defs Let_def)
  from t wl cn r1 ci r2 id fa ga r3 obtain acc :: account where ao: "ao = Some acc"
    by (cases ao) (auto simp add: sendTx_try_def address_of_def io_defs Let_def)
  define w3 where "w3 = w\<lparr>chain := c3, trace := trace w @
             [(FromMnemonic (mnemonic (sender cf)) (option (sender cf)), Returned),
              (ConnectWithSigner (rpc_endpoint (blockchain cf)), Returned),
              (GetChainId, Returned),
              (GetAccount (address fa), Returned)]\<rparr>"
  from t wl cn r1 ci r2 id fa ga r3 ao
  have st: "send_transfer cf K (address fa) rcpt acc w3 = (Inr result, w')"
    by (simp add: sendTx_try_def address_of_def io_defs Let_def w3_def)
  from send_transfer_success [OF st] keeps_quota_send_transfer [of cf K "address fa" rcpt acc] st
  have "sendTokens K (address fa) rcpt [tx_amount (tx cf)] (tx_fee (tx cf))
              \<lparr>accountNumber = accountNumber acc, sequence = sequence acc\<rparr> c3 = (Inr result, chain w')
         \<and> quota w' = quota w
         \<and> trace w' = trace w @
             [(FromMnemonic (mnemonic (sender cf)) (option (sender cf)), Returned),
              (ConnectWithSigner (rpc_endpoint (blockchain cf)), Returned),
              (GetChainId, Returned),
              (GetAccount (address fa), Returned),
              (SendTokens (address fa) rcpt [tx_amount (tx cf)] (tx_fee (tx cf))
                 \<lparr>accountNumber = accountNumber acc, sequence = sequence acc\<rparr>, Returned)]"
    by (auto simp add: w3_def keeps_def dest: spec [of _ w3])
  with wl fa cn r1 ci r2 id ga r3 ao show ?thesis
    by blast
qed


subsection \<open>What a successful disbursement broadcasts\<close>

text \<open>
  C8. Whenever the /send handler answers with status 200, both checks allowed, the
  wallet was built from the configured mnemonic, the client connected and reported the
  configured chain, \<open>getAccount\<close> returned an account for the wallet's first address,
  and the client's \<open>sendTokens\<close> was called once and returned: from that first address,
  to the requested recipient, with the configured amount and denomination (\<open>tx.amount\<close>),
  the configured fee and gas limit (\<open>tx.fee\<close>) and the account number and sequence just
  read. The chain is left in the state that call of \<open>sendTokens\<close> produced, the response
  carries what it returned, and the request has made exactly the listed calls, in this
  order. Nothing of the request but the recipient enters the transfer.
\<close>

theorem success_broadcasts_configured_transfer:
  assumes "send_handler cf ck K req w = (r, w')"
    and "status r = 200"
  shows "\<exists>q1 q2 wallet fa (acc :: account) c1 c2 c3 result.
           checkAddress ck (req_address req) (quota w) = (Inr True, q1)
         \<and> checkIp ck (req_ip req) q1 = (Inr True, q2)
         \<and> fromMnemonic K (mnemonic (sender cf)) (option (sender cf)) = Inr wallet
         \<and> firstOf wallet = Some fa
         \<and> connectWithSigner K (rpc_endpoint (blockchain cf)) (chain w) = (Inr (), c1)
         \<and> getChainId K c1 = (Inr (chain_id (blockchain cf)), c2)
         \<and> getAccount K (address fa) c2 = (Inr (Some acc), c3)
         \<and> sendTokens K (address fa) (req_address req) [tx_amount (tx cf)] (tx_fee (tx cf))
              \<lparr>accountNumber = accountNumber acc, sequence = sequence acc\<rparr> c3 = (Inr result, chain w')
         \<and> r = sent result
         \<and> quota w' = update ck (req_address req) (update ck (req_ip req) q2)
         \<and> trace w' = trace w @
             [(CheckAddress (req_address req), Decided True),
              (CheckIp (req_ip req), Decided True),
              (Update (req_ip req), Returned),
              (FromMnemonic (mnemonic (sender cf)) (option (sender cf)), Returned),
              (ConnectWithSigner (rpc_endpoint (blockchain cf)), Returned),
              (GetChainId, Returned),
              (GetAccount (address fa), Returned),
              (SendTokens (address fa) (req_address req) [tx_amount (tx cf)] (tx_fee (tx cf))
                 \<lparr>accountNumber = accountNumber acc, sequence = sequence acc\<rparr>, Returned),
              (Update (req_address req), Returned)]"
proof -
  obtain ra q1 where ca: "checkAddress ck (req_address req) (quota w) = (ra, q1)"
    by (cases "checkAddress ck (req_address req) (quota w)")
  obtain ri q2 where ci: "checkIp ck (req_ip req) q1 = (ri, q2)"
    by (cases "checkIp ck (req_ip req) q1")
  from send_handler_not_admitted [OF ca ci, of cf K] assms
  have v: "req_address req \<noteq> []" "startsWith (req_address req) (prefix (option (sender cf)))"
    and ra: "ra = Inr True" and ri: "ri = Inr True"
    by auto
  define w1 where "w1 = update_op ck (req_ip req)
              (w\<lparr>quota := q2,
                 trace := trace w @ [(CheckAddress (req_address req), Decided True),
                                     (CheckIp (req_ip req), Decided True)]\<rparr>)"
  obtain rs w2 where s: "sendTx cf K (req_address req) w1 = (rs, w2)"
    by (cases "sendTx cf K (req_address req) w1")
  from send_handler_admitted [OF v ca [unfolded ra] ci [unfolded ri] s [unfolded w1_def]] assms
  obtain result where rs: "rs = Inr result" and r: "r = sent result"
    and w': "w' = update_op ck (req_address req) w2"
    by (cases rs) (auto simp add: status_send_catch)
  from sendTx_success_chain [OF s [unfolded rs]]
  obtain wallet fa and acc :: account and c1 c2 c3 where
    wl: "fromMnemonic K (mnemonic (sender cf)) (option (sender cf)) = Inr wallet"
    and fa: "firstOf wallet = Some fa"
    and cn: "connectWithSigner K (rpc_endpoint (blockchain cf)) (chain w1) = (Inr (), c1)"
    and id: "getChainId K c1 = (Inr (chain_id (blockchain cf)), c2)"
    and ga: "getAccount K (address fa) c2 = (Inr (Some acc), c3)"
    and st: "sendTokens K (address fa) (req_address req) [tx_amount (tx cf)] (tx_fee (tx cf))
              \<lparr>accountNumber = accountNumber acc, sequence = sequence acc\<rparr> c3 = (Inr result, chain w2)"
    and q: "quota w2 = quota w1"
    and tr: "trace w2 = trace w1 @
             [(FromMnemonic (mnemonic (sender cf)) (option (sender cf)), Returned),
              (ConnectWithSigner (rpc_endpoint (blockchain cf)), Returned),
              (GetChainId, Returned),
              (GetAccount (address fa), Returned),
              (SendTokens (address fa) (req_address req) [tx_amount (tx cf)] (tx_fee (tx cf))
                 \<lparr>accountNumber = accountNumber acc, sequence = sequence acc\<rparr>, Returned)]"
    by blast
  have "checkAddress ck (req_address req) (quota w) = (Inr True, q1)
         \<and> checkIp ck (req_ip req) q1 = (Inr True, q2)
         \<and> fromMnemonic K (mnemonic (sender cf)) (option (sender cf)) = Inr wallet
         \<and> firstOf wallet = Some fa
         \<and> connectWithSigner K (rpc_endpoint (blockchain cf)) (chain w) = (Inr (), c1)
         \<and> getChainId K c1 = (Inr (chain_id (blockchain cf)), c2)
         \<and> getAccount K (address fa) c2 = (Inr (Some acc), c3)
         \<and> sendTokens K (address fa) (req_address req) [tx_amount (tx cf)] (tx_fee (tx cf))
              \<lparr>accountNumber = accountNumber acc, sequence = sequence acc\<rparr> c3 = (Inr result, chain w')
         \<and> r = sent result
         \<and> quota w' = update ck (req_address req) (update ck (req_ip req) q2)
         \<and> trace w' = trace w @
             [(CheckAddress (req_address req), Decided True),
              (CheckIp (req_ip req), Decided True),
              (Update (req_ip req), Returned),
              (FromMnemonic (mnemonic (sender cf)) (option (sender cf)), Returned),
              (ConnectWithSigner (rpc_endpoint (blockchain cf)), Returned),
              (GetChainId, Returned),
              (GetAccount (address fa), Returned),
              (SendTokens (address fa) (req_address req) [tx_amount (tx cf)] (tx_fee (tx cf))
                 \<lparr>accountNumber = accountNumber acc, sequence = sequence acc\<rparr>, Returned),
              (Update (req_address req), Returned)]"
    using ca ra ci ri wl fa cn id ga st r w' q tr
    by (simp add: w1_def update_op_def)
  then show ?thesis by blast
qed

lemma send_abc_runs:
  "send_handler test_conf (FrequencyChecker test_conf) ordered_chain req_abc test_world
     = (sent (JObj [(''code'', JStr ''0'')]),
        \<lparr>quota = test_quota\<lparr>records := (\<lambda>k. [])((Address, ''int31abc'') := [1000], (Origin, ''10.0.0.1'') := [1000])\<rparr>,
         chain = test_chain\<lparr>accounts := (accounts test_chain)
                   (''int31faucet'' := Some \<lparr>accountNumber = 7, sequence = 1\<rparr>)\<rparr>,
         trace =
           [(CheckAddress ''int31abc'', Decided True),
            (CheckIp ''10.0.0.1'', Decided True),
            (Update ''10.0.0.1'', Returned),
            (FromMnemonic ''abandon abandon about'' (option (sender test_conf)), Returned),
            (ConnectWithSigner ''http://localhost:26657'', Returned),
            (GetChainId, Returned),
            (GetAccount ''int31faucet'', Returned),
            (SendTokens ''int31faucet'' ''int31abc'' [\<lparr>denom = ''uint3'', amount = ''1000000''\<rparr>]
               \<lparr>fee_amount = [\<lparr>denom = ''uint3'', amount = ''1000''\<rparr>], gas = ''200000''\<rparr>
               \<lparr>accountNumber = 7, sequence = 0\<rparr>, Returned),
            (Update ''int31abc'', Returned)]\<rparr>)"
  by (simp add: send_handler_def send_try_def sendTx_def sendTx_try_def send_transfer_def
        address_of_def firstOf_def io_defs Let_def startsWith_def FrequencyChecker_def
        checkAndReserve_def commit_def live_def WINDOW_def test_conf_def config_def test_env_def
        or_default_def req_abc_def test_world_def test_quota_def test_chain_def ordered_chain_def
        sent_def)

theorem success_broadcasts_configured_transfer_witness:
  "status (fst (send_handler test_conf (FrequencyChecker test_conf) ordered_chain req_abc test_world)) = 200
   \<and> (\<exists>q1 q2 wallet fa (acc :: account) c1 c2 c3 result.
           checkAddress (FrequencyChecker test_conf) (req_address req_abc) (quota test_world) = (Inr True, q1)
         \<and> checkIp (FrequencyChecker test_conf) (req_ip req_abc) q1 = (Inr True, q2)
         \<and> fromMnemonic ordered_chain (mnemonic (sender test_conf)) (option (sender test_conf)) = Inr wallet
         \<and> firstOf wallet = Some fa
         \<and> connectWithSigner ordered_chain (rpc_endpoint (blockchain test_conf)) (chain test_world) = (Inr (), c1)
         \<and> getChainId ordered_chain c1 = (Inr (chain_id (blockchain test_conf)), c2)
         \<and> getAccount ordered_chain (address fa) c2 = (Inr (Some acc), c3)
         \<and> sendTokens ordered_chain (address fa) (req_address req_abc) [tx_amount (tx test_conf)]
              (tx_fee (tx test_conf)) \<lparr>accountNumber = accountNumber acc, sequence = sequence acc\<rparr> c3
             = (Inr result,
                chain (snd (send_handler test_conf (FrequencyChecker test_conf) ordered_chain req_abc test_world)))
         \<and> fst (send_handler test_conf (FrequencyChecker test_conf) ordered_chain req_abc test_world) = sent result
         \<and> quota (snd (send_handler test_conf (FrequencyChecker test_conf) ordered_chain req_abc test_world))
             = update (FrequencyChecker test_conf) (req_address req_abc)
                 (update (FrequencyChecker test_conf) (req_ip req_abc) q2)
         \<and> trace (snd (send_handler test_conf (FrequencyChecker test_conf) ordered_chain req_abc test_world)) =
           trace test_world @
             [(CheckAddress (req_address req_abc), Decided True),
              (CheckIp (req_ip req_abc), Decided True),
              (Update (req_ip req_abc), Returned),
              (FromMnemonic (mnemonic (sender test_conf)) (option (sender test_conf)), Returned),
              (ConnectWithSigner (rpc_endpoint (blockchain test_conf)), Returned),
              (GetChainId, Returned),
              (GetAccount (address fa), Returned),
              (SendTokens (address fa) (req_address req_abc) [tx_amount (tx test_conf)] (tx_fee (tx test_conf))
                 \<lparr>accountNumber = accountNumber acc, sequence = sequence acc\<rparr>, Returned),
              (Update (req_address req_abc), Returned)])"
proof -
  have ok: "status (fst (send_handler test_conf (FrequencyChecker test_conf) ordered_chain req_abc test_world)) = 200"
    by (simp add: send_abc_runs sent_def)
  from success_broadcasts_configured_transfer [OF prod.collapse [symmetric] ok] ok
  show ?thesis by simp
qed

text \<open>
  The same request against a client whose broadcast throws is not a success: the
  transfer was handed to \<open>sendTokens\<close>, nothing was broadcast, and the answer is 500.
\<close>

lemma send_abc_rejected:
  "send_handler test_conf (FrequencyChecker test_conf) rejecting_chain req_abc test_world
     = (\<lparr>status = 500, body = result_json ''Failed to send tokens. Please contact the administrator.''\<rparr>,
        \<lparr>quota = test_quota\<lparr>records := (\<lambda>k. [])((Address, ''int31abc'') := [1000], (Origin, ''10.0.0.1'') := [1000])\<rparr>,
         chain = test_chain,
         trace =
           [(CheckAddress ''int31abc'', Decided True),
            (CheckIp ''10.0.0.1'', Decided True),
            (Update ''10.0.0.1'', Returned),
            (FromMnemonic ''abandon abandon about'' (option (sender test_conf)), Returned),
            (ConnectWithSigner ''http://localhost:26657'', Returned),
            (GetChainId, Returned),
            (GetAccount ''int31faucet'', Returned),
            (SendTokens ''int31faucet'' ''int31abc'' [\<lparr>denom = ''uint3'', amount = ''1000000''\<rparr>]
               \<lparr>fee_amount = [\<lparr>denom = ''uint3'', amount = ''1000''\<rparr>], gas = ''200000''\<rparr>
               \<lparr>accountNumber = 7, sequence = 0\<rparr>, Threw)]\<rparr>)"
  by (simp add: send_handler_def send_try_def sendTx_def sendTx_try_def send_transfer_def
        address_of_def firstOf_def io_defs Let_def startsWith_def FrequencyChecker_def
        checkAndReserve_def commit_def live_def WINDOW_def test_conf_def config_def test_env_def
        or_default_def req_abc_def test_world_def test_quota_def test_chain_def ordered_chain_def
        rejecting_chain_def send_catch_def sendTx_catch_def)

subsection \<open>Quota after a failed dispatch\<close>

lemma live_idem: "live t (live t xs) = live t xs"
  by (simp add: live_def)

lemma live_snoc_now: "live t (xs @ [t]) = live t xs @ [t]"
  by (simp add: live_def WINDOW_def)

lemma checkAndReserve_allowed:
  assumes "checkAndReserve lim kd key q = (Inr True, q')"
  shows "available q"
    and "length (live (now q) (records q (kd, key))) < lim"
    and "q' = q\<lparr>records := (records q)((kd, key) := live (now q) (records q (kd, key)) @ [now q])\<rparr>"
  using assms by (auto simp add: checkAndReserve_def split: if_splits)

lemma remaining_reserved:
  assumes "checkAndReserve lim kd key q = (Inr True, q')"
  shows "Suc (remaining lim kd key q') = remaining lim kd key q"
  using checkAndReserve_allowed [OF assms]
  by (simp add: remaining_def live_idem live_snoc_now)

lemma remaining_other:
  assumes "checkAndReserve lim kd key q = (r, q')" and "(kd', key') \<noteq> (kd, key)"
  shows "remaining lim' kd' key' q' = remaining lim' kd' key' q"
  using assms by (auto simp add: checkAndReserve_def remaining_def split: if_splits)

text \<open>
  C3. With the frequency checker modelled from the spec: when a request passes the
  validation and both admission checks allow, and the response is not the success (the
  dispatch failed), the quota state is the one the two checks left. The unit each check
  reserved is still counted: the remaining allowance of the recipient address is one
  less than before the request, and so is the remaining allowance of the caller's
  origin. Nothing is refunded.
\<close>

theorem failed_dispatch_keeps_reservation:
  assumes "req_address req \<noteq> []"
    and "startsWith (req_address req) (prefix (option (sender cf)))"
    and "checkAddress (FrequencyChecker cf) (req_address req) (quota w) = (Inr True, q1)"
    and "checkIp (FrequencyChecker cf) (req_ip req) q1 = (Inr True, q2)"
    and "send_handler cf (FrequencyChecker cf) K req w = (r, w')"
    and "status r \<noteq> 200"
  shows "quota w' = q2
       \<and> Suc (remaining (limit_address (limit cf)) Address (req_address req) (quota w'))
           = remaining (limit_address (limit cf)) Address (req_address req) (quota w)
       \<and> Suc (remaining (limit_ip (limit cf)) Origin (req_ip req) (quota w'))
           = remaining (limit_ip (limit cf)) Origin (req_ip req) (quota w)"
proof -
  from assms(3) have ca: "checkAndReserve (limit_address (limit cf)) Address (req_address req) (quota w)
                            = (Inr True, q1)"
    by (simp add: FrequencyChecker_def)
  from assms(4) have ci: "checkAndReserve (limit_ip (limit cf)) Origin (req_ip req) q1 = (Inr True, q2)"
    by (simp add: FrequencyChecker_def)
  define w1 where "w1 = update_op (FrequencyChecker cf) (req_ip req)
              (w\<lparr>quota := q2,
                 trace := trace w @ [(CheckAddress (req_address req), Decided True),
                                     (CheckIp (req_ip req), Decided True)]\<rparr>)"
  obtain rs w2 where s: "sendTx cf K (req_address req) w1 = (rs, w2)"
    by (cases "sendTx cf K (req_address req) w1")
  from send_handler_admitted [OF assms(1,2,3,4) s [unfolded w1_def]] assms(5,6)
  have "w' = w2"
    by (cases rs) (auto simp add: sent_def)
  with sendTx_quota [of cf K "req_address req" w1] s
  have q: "quota w' = q2"
    by (simp add: w1_def update_op_def FrequencyChecker_def commit_def)
  have a: "Suc (remaining (limit_address (limit cf)) Address (req_address req) q2)
             = remaining (limit_address (limit cf)) Address (req_address req) (quota w)"
    using remaining_reserved [OF ca]
      remaining_other [OF ci, of Address "req_address req" "limit_address (limit cf)"]
    by simp
  have i: "Suc (remaining (limit_ip (limit cf)) Origin (req_ip req) q2)
             = remaining (limit_ip (limit cf)) Origin (req_ip req) (quota w)"
    using remaining_reserved [OF ci]
      remaining_other [OF ca, of Origin "req_ip req" "limit_ip (limit cf)"]
    by simp
  from q a i show ?thesis by simp
qed

theorem failed_dispatch_keeps_reservation_witness:
  "status (fst (send_handler test_conf (FrequencyChecker test_conf) rejecting_chain req_abc test_world)) = 500
   \<and> remaining (limit_address (limit test_conf)) Address (req_address req_abc) (quota test_world) = 5
   \<and> remaining (limit_address (limit test_conf)) Address (req_address req_abc)
        (quota (snd (send_handler test_conf (FrequencyChecker test_conf) rejecting_chain req_abc test_world))) = 4
   \<and> remaining (limit_ip (limit test_conf)) Origin (req_ip req_abc) (quota test_world) = 5
   \<and> remaining (limit_ip (limit test_conf)) Origin (req_ip req_abc)
        (quota (snd (send_handler test_conf (FrequencyChecker test_conf) rejecting_chain req_abc test_world))) = 4"
proof -
  have v1: "req_address req_abc \<noteq> []"
    by (simp add: req_abc_def)
  have v2: "startsWith (req_address req_abc) (prefix (option (sender test_conf)))"
    by (simp add: startsWith_def test_conf_def config_def req_abc_def)
  have ca: "checkAddress (FrequencyChecker test_conf) (req_address req_abc) (quota test_world)
              = (Inr True, test_quota\<lparr>records := (\<lambda>k. [])((Address, ''int31abc'') := [1000])\<rparr>)"
    by (simp add: FrequencyChecker_def checkAndReserve_def test_world_def test_quota_def live_def
        test_conf_def config_def req_abc_def)
  have ci: "checkIp (FrequencyChecker test_conf) (req_ip req_abc)
              (test_quota\<lparr>records := (\<lambda>k. [])((Address, ''int31abc'') := [1000])\<rparr>)
              = (Inr True, test_quota\<lparr>records := (\<lambda>k. [])((Address, ''int31abc'') := [1000],
                                                         (Origin, ''10.0.0.1'') := [1000])\<rparr>)"
    by (simp add: FrequencyChecker_def checkAndReserve_def test_quota_def live_def
        test_conf_def config_def req_abc_def)
  have st: "status (fst (send_handler test_conf (FrequencyChecker test_conf) rejecting_chain req_abc test_world)) = 500"
    by (simp add: send_abc_rejected)
  then have ne: "status (fst (send_handler test_conf (FrequencyChecker test_conf) rejecting_chain req_abc test_world)) \<noteq> 200"
    by simp
  have b: "remaining (limit_address (limit test_conf)) Address (req_address req_abc) (quota test_world) = 5"
     "remaining (limit_ip (limit test_conf)) Origin (req_ip req_abc) (quota test_world) = 5"
    by (simp_all add: remaining_def test_world_def test_quota_def test_conf_def config_def live_def)
  from failed_dispatch_keeps_reservation [OF v1 v2 ca ci prod.collapse [symmetric] ne, THEN conjunct2] st b
  show ?thesis by simp
qed

subsection \<open>The message of an absent custodial account\<close>

lemma includes_str_delim:
  assumes "c \<notin> set n" and "n \<noteq> []"
  shows "includes_str (s @ c # t) n \<longleftrightarrow> includes_str s n \<or> includes_str t n"
proof (induction s)
  case Nil
  have "take (length n) (c # t) \<noteq> n"
  proof
    assume "take (length n) (c # t) = n"
    with assms(2) have "hd n = c" by (cases n) auto
    with assms show False by (cases n) auto
  qed
  with assms(2) show ?case by simp
next
  case (Cons x s)
  have "take (length n) ((x # s) @ c # t) = n \<longleftrightarrow> take (length n) (x # s) = n"
  proof (cases "length n \<le> length (x # s)")
    case True
    then show ?thesis by (simp only: take_append) simp
  next
    case False
    then have "take (length n) ((x # s) @ c # t)
                 = (x # s) @ c # take (length n - Suc (length (x # s))) t"
      by (simp only: take_append) (auto simp add: take_Cons')
    then have "c \<in> set (take (length n) ((x # s) @ c # t))"
      by simp
    moreover from False have "length (take (length n) (x # s)) < length n"
      by simp
    ultimately show ?thesis using assms(1) by auto
  qed
  then have "take (length n) (x # s @ c # t) = n \<longleftrightarrow> take (length n) (x # s) = n"
    by simp
  with Cons show ?case by auto
qed


lemma absence_message_includes:
  "includes_str (message (sendTx_catch r (account_missing a))) ''does not exist on chain''
     \<longleftrightarrow> includes_str r ''does not exist on chain'' \<or> includes_str a ''does not exist on chain''"
proof -
  have 1: "includes_str (r @ CHR '':'' # t) ''does not exist on chain''
             \<longleftrightarrow> includes_str r ''does not exist on chain'' \<or> includes_str t ''does not exist on chain''" for t
    by (rule includes_str_delim) simp_all
  have 2: "includes_str (a @ CHR '']'' # t) ''does not exist on chain''
             \<longleftrightarrow> includes_str a ''does not exist on chain'' \<or> includes_str t ''does not exist on chain''" for t
    by (rule includes_str_delim) simp_all
  show ?thesis
    by (simp add: sendTx_catch_def account_missing_def 1 2)
qed


lemma sendTx_account_absent:
  assumes "fromMnemonic K (mnemonic (sender cf)) (option (sender cf)) = Inr wallet"
    and "firstOf wallet = Some fa"
    and "connectWithSigner K (rpc_endpoint (blockchain cf)) (chain w) = (Inr (), c1)"
    and "getChainId K c1 = (Inr (chain_id (blockchain cf)), c2)"
    and "getAccount K (address fa) c2 = (Inr None, c3)"
  shows "sendTx cf K recipient w =
           (Inl (sendTx_catch recipient (account_missing (address fa))),
            w\<lparr>chain := c3,
              trace := trace w @
                [(FromMnemonic (mnemonic (sender cf)) (option (sender cf)), Returned),
                 (ConnectWithSigner (rpc_endpoint (blockchain cf)), Returned),
                 (GetChainId, Returned),
                 (GetAccount (address fa), Returned)]\<rparr>)"
  using assms
  by (simp add: sendTx_def sendTx_try_def address_of_def io_defs Let_def)

text \<open>
  What the handler answers when a request is admitted and \<open>sendTx\<close> finds that the
  custodial account does not exist: the \<open>catch\<close> sees the message ``Transaction failed for
  recipient R: Account [A] does not exist on the blockchain.'', and takes the 400 branch
  exactly when the recipient address R or the custodial address A itself contains the
  text ``does not exist on chain''; for every other recipient the answer is the generic
  500 failure.
\<close>

lemma account_absence_response:
  assumes "req_address req \<noteq> []"
    and "startsWith (req_address req) (prefix (option (sender cf)))"
    and "checkAddress ck (req_address req) (quota w) = (Inr True, q1)"
    and "checkIp ck (req_ip req) q1 = (Inr True, q2)"
    and "fromMnemonic K (mnemonic (sender cf)) (option (sender cf)) = Inr wallet"
    and "firstOf wallet = Some fa"
    and "connectWithSigner K (rpc_endpoint (blockchain cf)) (chain w) = (Inr (), c1)"
    and "getChainId K c1 = (Inr (chain_id (blockchain cf)), c2)"
    and "getAccount K (address fa) c2 = (Inr None, c3)"
  shows "fst (send_handler cf ck K req w) =
           (if includes_str (req_address req) ''does not exist on chain''
               \<or> includes_str (address fa) ''does not exist on chain''
            then \<lparr>status = 400, body = result_json (''Address ['' @ req_address req @
                     ''] does not exist on the blockchain. Please create the account first.'')\<rparr>
            else \<lparr>status = 500, body = result_json ''Failed to send tokens. Please contact the administrator.''\<rparr>)"
proof -
  define w1 where "w1 = update_op ck (req_ip req)
              (w\<lparr>quota := q2,
                 trace := trace w @ [(CheckAddress (req_address req), Decided True),
                                     (CheckIp (req_ip req), Decided True)]\<rparr>)"
  have c: "connectWithSigner K (rpc_endpoint (blockchain cf)) (chain w1) = (Inr (), c1)"
    using assms(7) by (simp add: w1_def update_op_def)
  obtain w2 where s: "sendTx cf K (req_address req) w1
      = (Inl (sendTx_catch (req_address req) (account_missing (address fa))), w2)"
    using sendTx_account_absent [OF assms(5,6) c assms(8,9)] by blast
  have m: "message (sendTx_catch (req_address req) (account_missing (address fa))) \<noteq> []"
    by (simp add: sendTx_catch_def)
  from send_handler_admitted [OF assms(1,2,3,4) s [unfolded w1_def]] m
  show ?thesis
    by (simp add: send_catch_def absence_message_includes)
qed

text \<open>
  C9. The handler looks for ``does not exist on chain'' in a message into which \<open>sendTx\<close>
  has copied the caller's recipient. For the recipient \<open>int3 does not exist on chain\<close>
  (it carries the configured prefix) and an absent custodial account, the answer is not
  the generic 500 failure the claim describes but the 400 response, after the request
  has been admitted and the account looked up.
\<close>

theorem account_absence_injected_recipient:
  "send_handler test_conf (FrequencyChecker test_conf) ordered_chain
     \<lparr>req_address = ''int3 does not exist on chain'', req_ip = ''10.0.0.1''\<rparr>
     (test_world\<lparr>chain := unfunded_chain\<rparr>)
   = (\<lparr>status = 400, body = result_json
          ''Address [int3 does not exist on chain] does not exist on the blockchain. Please create the account first.''\<rparr>,
      \<lparr>quota = test_quota\<lparr>records := (\<lambda>k. [])((Address, ''int3 does not exist on chain'') := [1000],
                                                 (Origin, ''10.0.0.1'') := [1000])\<rparr>,
       chain = unfunded_chain,
       trace =
         [(CheckAddress ''int3 does not exist on chain'', Decided True),
          (CheckIp ''10.0.0.1'', Decided True),
          (Update ''10.0.0.1'', Returned),
          (FromMnemonic ''abandon abandon about'' (option (sender test_conf)), Returned),
          (ConnectWithSigner ''http://localhost:26657'', Returned),
          (GetChainId, Returned),
          (GetAccount ''int31faucet'', Returned)]\<rparr>)"
  by (simp add: send_handler_def send_try_def sendTx_def sendTx_try_def send_transfer_def
        address_of_def firstOf_def io_defs Let_def startsWith_def FrequencyChecker_def
        checkAndReserve_def commit_def live_def WINDOW_def test_conf_def config_def test_env_def
        or_default_def test_world_def test_quota_def test_chain_def unfunded_chain_def
        ordered_chain_def send_catch_def sendTx_catch_def account_missing_def)

text \<open>The same lookup for an ordinary recipient is answered with the generic failure.\<close>

lemma account_absence_ordinary_recipient:
  "fst (send_handler test_conf (FrequencyChecker test_conf) ordered_chain req_abc
          (test_world\<lparr>chain := unfunded_chain\<rparr>))
     = \<lparr>status = 500, body = result_json ''Failed to send tokens. Please contact the administrator.''\<rparr>"
  by (simp add: send_handler_def send_try_def sendTx_def sendTx_try_def send_transfer_def
        address_of_def firstOf_def io_defs Let_def startsWith_def FrequencyChecker_def
        checkAndReserve_def commit_def live_def WINDOW_def test_conf_def config_def test_env_def
        or_default_def test_world_def test_quota_def test_chain_def unfunded_chain_def
        ordered_chain_def send_catch_def sendTx_catch_def account_missing_def req_abc_def)

subsection \<open>What /config.json discloses\<close>

lemma config_try_success:
  assumes "config_try toUpperCase cf K w = (Inr r, w')"
  shows "\<exists>wallet fa c1 balance.
           fromMnemonic K (mnemonic (sender cf)) (option (sender cf)) = Inr wallet
         \<and> firstOf wallet = Some fa
         \<and> connect K (rpc_endpoint (blockchain cf)) (chain w) = (Inr (), c1)
         \<and> getAllBalances K (address fa) c1 = (Inr balance, chain w')
         \<and> quota w' = quota w
         \<and> trace w' = trace w @
              [(FromMnemonic (mnemonic (sender cf)) (option (sender cf)), Returned),
               (Connect (rpc_endpoint (blockchain cf)), Returned),
               (GetAllBalances (address fa), Returned)]
         \<and> r = \<lparr>status = 200,
                 body = json_of (AList.update ''faucetBalance''
                          (balance_text toUpperCase balance
                             (if denom (tx_amount (tx cf)) = [] then ''uint3'' else denom (tx_amount (tx cf))))
                          (AList.update ''faucetAddress'' (address fa) (project cf)))\<rparr>"
proof -
  from assms obtain wallet where wl: "fromMnemonic K (mnemonic (sender cf)) (option (sender cf)) = Inr wallet"
    by (cases "fromMnemonic K (mnemonic (sender cf)) (option (sender cf))")
       (auto simp add: config_try_def bnd_def wallet_op_def)
  from assms wl obtain fa where fa: "firstOf wallet = Some fa"
    by (cases "firstOf wallet")
       (auto simp add: config_try_def address_of_def io_defs Let_def)
  obtain r1 c1 where cn: "connect K (rpc_endpoint (blockchain cf)) (chain w) = (r1, c1)"
    by (cases "connect K (rpc_endpoint (blockchain cf)) (chain w)")
  from assms wl fa cn have r1: "r1 = Inr ()"
    by (cases r1) (auto simp add: config_try_def address_of_def io_defs Let_def)
  obtain r2 c2 where gb: "getAllBalances K (address fa) c1 = (r2, c2)"
    by (cases "getAllBalances K (address fa) c1")
  from assms wl fa cn r1 gb obtain balance where r2: "r2 = Inr balance"
    by (cases r2) (auto simp add: config_try_def address_of_def io_defs Let_def)
  from assms wl fa cn r1 gb r2
  have "connect K (rpc_endpoint (blockchain cf)) (chain w) = (Inr (), c1)
         \<and> getAllBalances K (address fa) c1 = (Inr balance, chain w')
         \<and> quota w' = quota w
         \<and> trace w' = trace w @
              [(FromMnemonic (mnemonic (sender cf)) (option (sender cf)), Returned),
               (Connect (rpc_endpoint (blockchain cf)), Returned),
               (GetAllBalances (address fa), Returned)]
         \<and> r = \<lparr>status = 200,
                 body = json_of (AList.update ''faucetBalance''
                          (balance_text toUpperCase balance
                             (if denom (tx_amount (tx cf)) = [] then ''uint3'' else denom (tx_amount (tx cf))))
                          (AList.update ''faucetAddress'' (address fa) (project cf)))\<rparr>"
    by (auto simp add: config_try_def address_of_def io_defs Let_def)
  with wl fa show ?thesis by blast
qed

text \<open>
  C10. Whenever /config.json answers with status 200, the wallet was built from the
  configured mnemonic, the client connected, and \<open>getAllBalances\<close> returned a balance
  list for the wallet's first address; those are the only calls made. The body is the
  JSON object of \<open>conf.project\<close> with two properties assigned: \<open>faucetAddress\<close>, the first
  address of the wallet, and \<open>faucetBalance\<close>, the amount of the entry of that balance
  list for the configured denomination (or \<open>0\<close> when there is none), a space, and the
  denomination in upper case. So the keys of the body are the keys of \<open>conf.project\<close> plus
  these two, and every other key has the value it has in \<open>conf.project\<close>. No other
  configuration value (mnemonic, derivation options, chain id, RPC endpoint, limits,
  port, database path, fee, transfer amount) is a field of the body.
\<close>

theorem config_response_fields:
  assumes "config_handler toUpperCase cf K w = (r, w')"
    and "status r = 200"
  shows "\<exists>obj wallet fa c1 balance dn.
           fromMnemonic K (mnemonic (sender cf)) (option (sender cf)) = Inr wallet
         \<and> firstOf wallet = Some fa
         \<and> connect K (rpc_endpoint (blockchain cf)) (chain w) = (Inr (), c1)
         \<and> getAllBalances K (address fa) c1 = (Inr balance, chain w')
         \<and> quota w' = quota w
         \<and> trace w' = trace w @
              [(FromMnemonic (mnemonic (sender cf)) (option (sender cf)), Returned),
               (Connect (rpc_endpoint (blockchain cf)), Returned),
               (GetAllBalances (address fa), Returned)]
         \<and> dn = (if denom (tx_amount (tx cf)) = [] then ''uint3'' else denom (tx_amount (tx cf)))
         \<and> r = \<lparr>status = 200, body = json_of obj\<rparr>
         \<and> obj = AList.update ''faucetBalance''
                   ((case find (\<lambda>b. denom b = dn) balance of Some b \<Rightarrow> amount b | None \<Rightarrow> ''0'')
                      @ '' '' @ toUpperCase dn)
                   (AList.update ''faucetAddress'' (address fa) (project cf))
         \<and> fst ` set obj = fst ` set (project cf) \<union> {''faucetAddress'', ''faucetBalance''}
         \<and> map_of obj ''faucetAddress'' = Some (address fa)
         \<and> map_of obj ''faucetBalance'' =
             Some ((case find (\<lambda>b. denom b = dn) balance of Some b \<Rightarrow> amount b | None \<Rightarrow> ''0'')
                     @ '' '' @ toUpperCase dn)
         \<and> (\<forall>k. k \<noteq> ''faucetAddress'' \<and> k \<noteq> ''faucetBalance'' \<longrightarrow> map_of obj k = map_of (project cf) k)"
proof -
  from assms obtain r0 where t: "config_try toUpperCase cf K w = (Inr r0, w')" and r: "r = r0"
    by (auto simp add: config_handler_def split: prod.splits sum.splits)
  define dn where "dn = (if denom (tx_amount (tx cf)) = [] then ''uint3'' else denom (tx_amount (tx cf)))"
  from config_try_success [OF t] r obtain wallet fa c1 balance where
    wl: "fromMnemonic K (mnemonic (sender cf)) (option (sender cf)) = Inr wallet"
    and fa: "firstOf wallet = Some fa"
    and cn: "connect K (rpc_endpoint (blockchain cf)) (chain w) = (Inr (), c1)"
    and gb: "getAllBalances K (address fa) c1 = (Inr balance, chain w')"
    and q: "quota w' = quota w"
    and tr: "trace w' = trace w @
              [(FromMnemonic (mnemonic (sender cf)) (option (sender cf)), Returned),
               (Connect (rpc_endpoint (blockchain cf)), Returned),
               (GetAllBalances (address fa), Returned)]"
    and b: "r = \<lparr>status = 200,
                 body = json_of (AList.update ''faucetBalance'' (balance_text toUpperCase balance dn)
                          (AList.update ''faucetAddress'' (address fa) (project cf)))\<rparr>"
    unfolding dn_def by blast
  define shown where "shown = (case find (\<lambda>b. denom b = dn) balance of Some b \<Rightarrow> amount b | None \<Rightarrow> ''0'')
                      @ '' '' @ toUpperCase dn"
  have bt: "balance_text toUpperCase balance dn = shown"
    by (simp add: balance_text_def shown_def split: option.splits)
  define obj where "obj = AList.update ''faucetBalance'' shown
                   (AList.update ''faucetAddress'' (address fa) (project cf))"
  have k: "fst ` set obj = fst ` set (project cf) \<union> {''faucetAddress'', ''faucetBalance''}"
    by (simp add: obj_def dom_update insert_commute)
  have a: "map_of obj ''faucetAddress'' = Some (address fa)"
    by (simp add: obj_def update_conv')
  have bl: "map_of obj ''faucetBalance'' = Some shown"
    by (simp add: obj_def update_conv')
  have o: "\<forall>k. k \<noteq> ''faucetAddress'' \<and> k \<noteq> ''faucetBalance'' \<longrightarrow> map_of obj k = map_of (project cf) k"
    by (simp add: obj_def update_conv')
  from b bt have r': "r = \<lparr>status = 200, body = json_of obj\<rparr>"
    by (simp add: obj_def)
  from wl fa cn gb q tr dn_def r' obj_def [unfolded shown_def] k a bl [unfolded shown_def] o
  have "fromMnemonic K (mnemonic (sender cf)) (option (sender cf)) = Inr wallet
         \<and> firstOf wallet = Some fa
         \<and> connect K (rpc_endpoint (blockchain cf)) (chain w) = (Inr (), c1)
         \<and> getAllBalances K (address fa) c1 = (Inr balance, chain w')
         \<and> quota w' = quota w
         \<and> trace w' = trace w @
              [(FromMnemonic (mnemonic (sender cf)) (option (sender cf)), Returned),
               (Connect (rpc_endpoint (blockchain cf)), Returned),
               (GetAllBalances (address fa), Returned)]
         \<and> dn = (if denom (tx_amount (tx cf)) = [] then ''uint3'' else denom (tx_amount (tx cf)))
         \<and> r = \<lparr>status = 200, body = json_of obj\<rparr>
         \<and> obj = AList.update ''faucetBalance''
                   ((case find (\<lambda>b. denom b = dn) balance of Some b \<Rightarrow> amount b | None \<Rightarrow> ''0'')
                      @ '' '' @ toUpperCase dn)
                   (AList.update ''faucetAddress'' (address fa) (project cf))
         \<and> fst ` set obj = fst ` set (project cf) \<union> {''faucetAddress'', ''faucetBalance''}
         \<and> map_of obj ''faucetAddress'' = Some (address fa)
         \<and> map_of obj ''faucetBalance'' =
             Some ((case find (\<lambda>b. denom b = dn) balance of Some b \<Rightarrow> amount b | None \<Rightarrow> ''0'')
                     @ '' '' @ toUpperCase dn)
         \<and> (\<forall>k. k \<noteq> ''faucetAddress'' \<and> k \<noteq> ''faucetBalance'' \<longrightarrow> map_of obj k = map_of (project cf) k)"
    by (intro conjI)
  then show ?thesis
    by (intro exI)
qed

lemma upper_uint3: "ascii_upper ''uint3'' = ''UINT3''"
  by code_simp

lemma config_runs:
  "config_handler ascii_upper test_conf ordered_chain test_world
     = (\<lparr>status = 200,
         body = json_of
           [(''name'', ''Int3face''),
            (''logo'', ''https://raw.githubusercontent.com/cosmos/chain-registry/master/int3face/images/int3.png''),
            (''deployer'', project_deployer),
            (''faucetAddress'', ''int31faucet''),
            (''faucetBalance'', ''5000000 UINT3'')]\<rparr>,
        test_world\<lparr>trace :=
          [(FromMnemonic ''abandon abandon about'' (option (sender test_conf)), Returned),
           (Connect ''http://localhost:26657'', Returned),
           (GetAllBalances ''int31faucet'', Returned)]\<rparr>)"
  by (simp add: config_handler_def config_try_def address_of_def firstOf_def io_defs Let_def
      balance_text_def upper_uint3 test_conf_def config_def test_env_def or_default_def
      test_world_def test_chain_def ordered_chain_def project_deployer_def)

theorem config_response_fields_witness:
  "status (fst (config_handler ascii_upper test_conf ordered_chain test_world)) = 200
   \<and> (\<exists>obj wallet fa c1 balance dn.
           fromMnemonic ordered_chain (mnemonic (sender test_conf)) (option (sender test_conf)) = Inr wallet
         \<and> firstOf wallet = Some fa
         \<and> connect ordered_chain (rpc_endpoint (blockchain test_conf)) (chain test_world) = (Inr (), c1)
         \<and> getAllBalances ordered_chain (address fa) c1 = (Inr balance, chain (snd (config_handler ascii_upper test_conf ordered_chain test_world)))
         \<and> quota (snd (config_handler ascii_upper test_conf ordered_chain test_world)) = quota test_world
         \<and> trace (snd (config_handler ascii_upper test_conf ordered_chain test_world)) = trace test_world @
              [(FromMnemonic (mnemonic (sender test_conf)) (option (sender test_conf)), Returned),
               (Connect (rpc_endpoint (blockchain test_conf)), Returned),
               (GetAllBalances (address fa), Returned)]
         \<and> dn = (if denom (tx_amount (tx test_conf)) = [] then ''uint3'' else denom (tx_amount (tx test_conf)))
         \<and> fst (config_handler ascii_upper test_conf ordered_chain test_world) = \<lparr>status = 200, body = json_of obj\<rparr>
         \<and> obj = AList.update ''faucetBalance''
                   ((case find (\<lambda>b. denom b = dn) balance of Some b \<Rightarrow> amount b | None \<Rightarrow> ''0'')
                      @ '' '' @ ascii_upper dn)
                   (AList.update ''faucetAddress'' (address fa) (project test_conf))
         \<and> fst ` set obj = fst ` set (project test_conf) \<union> {''faucetAddress'', ''faucetBalance''}
         \<and> map_of obj ''faucetAddress'' = Some (address fa)
         \<and> map_of obj ''faucetBalance'' =
             Some ((case find (\<lambda>b. denom b = dn) balance of Some b \<Rightarrow> amount b | None \<Rightarrow> ''0'')
                     @ '' '' @ ascii_upper dn)
         \<and> (\<forall>k. k \<noteq> ''faucetAddress'' \<and> k \<noteq> ''faucetBalance'' \<longrightarrow> map_of obj k = map_of (project test_conf) k))"
proof -
  have ok: "status (fst (config_handler ascii_upper test_conf ordered_chain test_world)) = 200"
    by (simp add: config_runs)
  show ?thesis
    by (rule conjI [OF ok config_response_fields [OF prod.collapse [symmetric] ok]])
qed

subsection \<open>Requests in flight: the ordering tokens\<close>






text \<open>
  A request that runs alone goes through the steps to the response of the handler: nine
  steps of the only task give what \<open>send_handler\<close> gives, response and world.
\<close>

lemma run_done: "run cf ck K sched ([Done r], w) = ([Done r], w)"
  by (induction sched) simp_all

lemma handler_as_steps:
  "run cf ck K [0, 0, 0, 0, 0, 0, 0, 0, 0] ([Received req], w)
     = ([Done (fst (send_handler cf ck K req w))], snd (send_handler cf ck K req w))"
  by (simp add: send_handler_def send_try_def sendTx_def sendTx_try_def io_defs failed_def Let_def
      address_of_def run_done
      split: prod.splits sum.splits option.splits)
























subsection \<open>Requests that succeed and broadcasts that return\<close>














subsection \<open>Admission under concurrent load\<close>

lemma length_filter_mono:
  "(\<And>x. x \<in> set xs \<Longrightarrow> P x \<Longrightarrow> Q x) \<Longrightarrow> length (filter P xs) \<le> length (filter Q xs)"
  by (induction xs) auto

lemma live_conv: "live t ts = filter (\<lambda>x. t - WINDOW \<le> x) ts"
  by (simp add: live_def not_less) (metis (no_types, opaque_lifting) diff_le_eq add.commute)

lemma stored_since_live:
  assumes "t - WINDOW \<le> b"
  shows "length (filter (\<lambda>x. b \<le> x) (live t ts)) = length (filter (\<lambda>x. b \<le> x) ts)"
proof -
  have "filter (\<lambda>x. b \<le> x) (live t ts) = filter (\<lambda>x. b \<le> x) ts"
    using assms by (auto simp add: live_conv intro: filter_cong)
  then show ?thesis by simp
qed

lemma in_window_le_since:
  "in_window T k h \<le> since (T - WINDOW) k h"
  unfolding in_window_def since_def
  by (rule length_filter_mono) simp

lemma stored_since_antimono:
  "b \<le> b' \<Longrightarrow> stored_since b' k q \<le> stored_since b k q"
  unfolding stored_since_def
  by (rule length_filter_mono) simp

lemma stored_since_window:
  "stored_since (now q - WINDOW) k q = length (live (now q) (records q k))"
  by (simp add: stored_since_def live_conv)

lemma quota_inv_empty: "quota_inv lim [] q"
  by (simp add: quota_inv_def since_def in_window_def)

lemma quota_inv_tick:
  assumes "quota_inv lim h q"
  shows "quota_inv lim h (q\<lparr>now := now q + int d\<rparr>)"
  using assms unfolding quota_inv_def stored_since_def
  by (auto intro: order_trans)

text \<open>A reservation keeps the invariant: the grant is logged and stored at once.\<close>

lemma quota_inv_reserved:
  assumes inv: "quota_inv lim h q"
    and guard: "length (live (now q) (records q k)) < lim k"
  shows "quota_inv lim (h @ [(now q, k)])
           (q\<lparr>records := (records q)(k := live (now q) (records q k) @ [now q])\<rparr>)"
proof -
  let ?t = "now q"
  let ?q' = "q\<lparr>records := (records q)(k := live (now q) (records q k) @ [now q])\<rparr>"
  from inv have i1: "\<And>x. x \<in> set h \<Longrightarrow> fst x \<le> ?t"
    and i2: "\<And>k b. ?t - WINDOW \<le> b \<Longrightarrow> since b k h \<le> stored_since b k q"
    and i3: "\<And>k T. in_window T k h \<le> lim k"
    unfolding quota_inv_def by blast+
  have j1: "\<forall>x \<in> set (h @ [(?t, k)]). fst x \<le> now ?q'"
    using i1 by auto
  have j2: "since b k' (h @ [(?t, k)]) \<le> stored_since b k' ?q'"
    if b: "now ?q' - WINDOW \<le> b" for k' b
  proof -
    from b have b': "?t - WINDOW \<le> b" by simp
    show ?thesis
    proof (cases "k' = k")
      case True
      have "stored_since b k ?q' = stored_since b k q + (if b \<le> ?t then 1 else 0)"
        using stored_since_live [OF b', of "records q k"]
        by (simp add: stored_since_def)
      moreover have "since b k (h @ [(?t, k)]) = since b k h + (if b \<le> ?t then 1 else 0)"
        by (simp add: since_def)
      ultimately show ?thesis using i2 [OF b', of k] True by simp
    next
      case False
      then have "stored_since b k' ?q' = stored_since b k' q"
        by (simp add: stored_since_def)
      moreover from False have "since b k' (h @ [(?t, k)]) = since b k' h"
        by (simp add: since_def)
      ultimately show ?thesis using i2 [OF b', of k'] by simp
    qed
  qed
  have j3: "in_window T k' (h @ [(?t, k)]) \<le> lim k'" for k' T
  proof (cases "k' = k \<and> T - WINDOW \<le> ?t \<and> ?t \<le> T")
    case False
    then have "in_window T k' (h @ [(?t, k)]) = in_window T k' h"
      by (auto simp add: in_window_def)
    with i3 [of T k'] show ?thesis by simp
  next
    case True
    then have k: "k' = k" and lo: "T - WINDOW \<le> ?t" and hi: "?t \<le> T" by simp_all
    from hi have "?t - WINDOW \<le> T - WINDOW" by simp
    from i2 [OF this, of k] have "since (T - WINDOW) k h \<le> stored_since (T - WINDOW) k q" .
    also from hi have "\<dots> \<le> stored_since (?t - WINDOW) k q"
      by (intro stored_since_antimono) simp
    also have "\<dots> = length (live ?t (records q k))"
      by (rule stored_since_window)
    finally have "since (T - WINDOW) k h < lim k"
      using guard by simp
    with in_window_le_since [of T k h] have "in_window T k h < lim k"
      by simp
    moreover from k lo hi have "in_window T k' (h @ [(?t, k)]) = in_window T k h + 1"
      by (simp add: in_window_def)
    ultimately show ?thesis using k by simp
  qed
  from j1 j2 j3 show ?thesis
    unfolding quota_inv_def by blast
qed

lemma quota_inv_checkAndReserve:
  assumes inv: "quota_inv lim h q"
    and c: "checkAndReserve (lim (kd, key)) kd key q = (r, q')"
  shows "quota_inv lim (h @ (if r = Inr True then [(now q, kd, key)] else [])) q'"
proof (cases "available q \<and> length (live (now q) (records q (kd, key))) < lim (kd, key)")
  case True
  with c have "r = Inr True"
    and "q' = q\<lparr>records := (records q)((kd, key) := live (now q) (records q (kd, key)) @ [now q])\<rparr>"
    by (auto simp add: checkAndReserve_def)
  with quota_inv_reserved [OF inv, of "(kd, key)"] True show ?thesis
    by simp
next
  case False
  with c have "r = Inr False" and "q' = q"
    by (auto simp add: checkAndReserve_def split: if_splits)
  with inv show ?thesis by simp
qed

lemma granted_single:
  "List.map_filter (granted t) [(ev, x)] = (case granted t (ev, x) of Some g \<Rightarrow> [g] | None \<Rightarrow> [])"
  by (simp add: List.map_filter_simps split: option.splits)

lemma granted_decided_address:
  "granted t (CheckAddress key, decided r) = (if r = Inr True then Some (t, Address, key) else None)"
  by (cases r) (auto simp add: decided_def split: bool.splits)

lemma granted_decided_origin:
  "granted t (CheckIp key, decided r) = (if r = Inr True then Some (t, Origin, key) else None)"
  by (cases r) (auto simp add: decided_def split: bool.splits)

text \<open>
  One step of a request either leaves the store alone and logs nothing, or is one call
  of \<open>checkAndReserve\<close> with the limit of the kind, logged when it allows.
\<close>

lemma step_admission:
  assumes st: "step cf (FrequencyChecker cf) K t w = (t', w')"
  shows "(quota w' = quota w \<and> List.map_filter (granted T) (appended w w') = [])
       \<or> (\<exists>kd key r. checkAndReserve (limit_of cf (kd, key)) kd key (quota w) = (r, quota w')
            \<and> List.map_filter (granted T) (appended w w')
                = (if r = Inr True then [(T, kd, key)] else []))"
proof (cases t)
  case (Received req)
  show ?thesis
  proof (cases "req_address req = [] \<or> \<not> startsWith (req_address req) (prefix (option (sender cf)))")
    case True
    with st Received have "w' = w" by (auto split: if_splits)
    then show ?thesis by (simp add: appended_def List.map_filter_simps)
  next
    case False
    obtain r q' where c: "checkAndReserve (limit_address (limit cf)) Address (req_address req) (quota w) = (r, q')"
      by (cases "checkAndReserve (limit_address (limit cf)) Address (req_address req) (quota w)")
    with st Received False
    have "w' = w\<lparr>quota := q', trace := trace w @ [(CheckAddress (req_address req), decided r)]\<rparr>"
      by (auto simp add: check_op_def FrequencyChecker_def split: sum.splits)
    with c have "checkAndReserve (limit_of cf (Address, req_address req)) Address (req_address req) (quota w) = (r, quota w')
            \<and> List.map_filter (granted T) (appended w w')
                = (if r = Inr True then [(T, Address, req_address req)] else [])"
      by (simp add: appended_def granted_single granted_decided_address)
    then show ?thesis by blast
  qed
next
  case (CheckedAddress req a)
  obtain r q' where c: "checkAndReserve (limit_ip (limit cf)) Origin (req_ip req) (quota w) = (r, q')"
    by (cases "checkAndReserve (limit_ip (limit cf)) Origin (req_ip req) (quota w)")
  with st CheckedAddress
  have "w' = w\<lparr>quota := q', trace := trace w @ [(CheckIp (req_ip req), decided r)]\<rparr>"
    by (auto simp add: check_op_def FrequencyChecker_def split: sum.splits)
  with c have "checkAndReserve (limit_of cf (Origin, req_ip req)) Origin (req_ip req) (quota w) = (r, quota w')
          \<and> List.map_filter (granted T) (appended w w')
              = (if r = Inr True then [(T, Origin, req_ip req)] else [])"
    by (simp add: appended_def granted_single granted_decided_origin)
  then show ?thesis by blast
next
  case (CheckedIp req a i)
  with st have "quota w' = quota w \<and> List.map_filter (granted T) (appended w w') = []"
    by (auto simp add: appended_def wallet_op_def update_op_def FrequencyChecker_def commit_def
        List.map_filter_simps split: if_splits prod.splits sum.splits)
  then show ?thesis by blast
next
  case (GotWallet req wallet)
  with st have "w' = w" by simp
  then show ?thesis by (simp add: appended_def List.map_filter_simps)
next
  case (GotAccounts req firstAccount)
  with st have "quota w' = quota w \<and> List.map_filter (granted T) (appended w w') = []"
    by (auto simp add: appended_def chain_op_def List.map_filter_simps
        split: if_splits prod.splits sum.splits)
  then show ?thesis by blast
next
  case (Connected req firstAccount)
  with st have "quota w' = quota w \<and> List.map_filter (granted T) (appended w w') = []"
    by (auto simp add: appended_def chain_op_def List.map_filter_simps
        split: if_splits prod.splits sum.splits)
  then show ?thesis by blast
next
  case (GotChainId req firstAccount chainId)
  with st have "quota w' = quota w \<and> List.map_filter (granted T) (appended w w') = []"
    by (cases firstAccount)
       (auto simp add: appended_def chain_op_def address_of_def bnd_def ret_def throw_def
        List.map_filter_simps split: if_splits prod.splits sum.splits)
  then show ?thesis by blast
next
  case (GotAccount req sender_address acc)
  with st have "quota w' = quota w \<and> List.map_filter (granted T) (appended w w') = []"
    by (cases acc)
       (auto simp add: appended_def send_transfer_def chain_op_def throw_def Let_def
        List.map_filter_simps split: if_splits prod.splits sum.splits)
  then show ?thesis by blast
next
  case (Sent req result)
  with st have "quota w' = quota w \<and> List.map_filter (granted T) (appended w w') = []"
    by (auto simp add: appended_def update_op_def FrequencyChecker_def commit_def
        List.map_filter_simps)
  then show ?thesis by blast
next
  case (Done r)
  with st have "w' = w" by simp
  then show ?thesis by (simp add: appended_def List.map_filter_simps)
qed

lemma step_quota_inv:
  assumes inv: "quota_inv (limit_of cf) h (quota w)"
    and st: "step cf (FrequencyChecker cf) K t w = (t', w')"
  shows "quota_inv (limit_of cf) (h @ List.map_filter (granted (now (quota w))) (appended w w')) (quota w')"
proof -
  from step_admission [OF st, of "now (quota w)"]
  consider (quiet) "quota w' = quota w"
        "List.map_filter (granted (now (quota w))) (appended w w') = []"
    | (check) kd key r where
        "checkAndReserve (limit_of cf (kd, key)) kd key (quota w) = (r, quota w')"
        "List.map_filter (granted (now (quota w))) (appended w w')
                = (if r = Inr True then [(now (quota w), kd, key)] else [])"
    by blast
  then show ?thesis
  proof cases
    case quiet
    with inv show ?thesis by simp
  next
    case check
    from quota_inv_checkAndReserve [OF inv check(1)] check(2) show ?thesis
      by simp
  qed
qed

lemma play_quota_inv:
  "quota_inv (limit_of cf) h (quota w) \<Longrightarrow>
   quota_inv (limit_of cf) (snd (snd (play cf K ms (ts, w, h))))
                           (quota (fst (snd (play cf K ms (ts, w, h)))))"
proof (induction ms arbitrary: ts w h)
  case Nil
  then show ?case by simp
next
  case (Cons m ms)
  show ?case
  proof (cases m)
    case (Tick d)
    from quota_inv_tick [OF Cons.prems, of d]
    have "quota_inv (limit_of cf) h (quota (tick d w))"
      by (simp add: tick_def)
    from Cons.IH [OF this, of ts] Tick show ?thesis by simp
  next
    case (Step i)
    show ?thesis
    proof (cases "i < length ts")
      case False
      with Cons.IH [OF Cons.prems, of ts] Step show ?thesis by simp
    next
      case True
      obtain t' w1 where s: "step cf (FrequencyChecker cf) K (ts ! i) w = (t', w1)"
        by (cases "step cf (FrequencyChecker cf) K (ts ! i) w")
      from Cons.IH [OF step_quota_inv [OF Cons.prems s], of "ts[i := t']"] True s Step
      show ?thesis by simp
    qed
  qed
qed


text \<open>
  C2. With the limiter of the spec, an admission check is one call of \<open>checkAndReserve\<close>,
  made in one step of the request: it tests the quota and, when it allows, appends the
  instant to the subject's record. So for every set of requests in flight, every
  schedule of their steps and of the clock, every subject and every instant \<open>T\<close>, the
  checks of the subject that returned ``allowed'' in the 24 hours ending at \<open>T\<close> are at
  most the limit configured for the subject's kind; and every such check that the
  window at the end of the run still covers is counted in the store.
\<close>

theorem admission_bounded:
  "in_window T (kd, key) (snd (snd (play cf K ms (ts, w, [])))) \<le> limit_of cf (kd, key)
   \<and> (\<forall>b. now (quota (fst (snd (play cf K ms (ts, w, []))))) - WINDOW \<le> b \<longrightarrow>
          since b (kd, key) (snd (snd (play cf K ms (ts, w, []))))
            \<le> stored_since b (kd, key) (quota (fst (snd (play cf K ms (ts, w, []))))))"
proof -
  from play_quota_inv [OF quota_inv_empty, where cf = cf and w = w and K = K and ms = ms and ts = ts]
  show ?thesis
    unfolding quota_inv_def by blast
qed

lemmas play_defs = send_transfer_def
        address_of_def firstOf_def io_defs Let_def startsWith_def FrequencyChecker_def
        checkAndReserve_def commit_def live_def WINDOW_def test_conf_def config_def test_env_def
        or_default_def req_abc_def test_world_def test_quota_def test_chain_def ordered_chain_def
        sent_def failed_def strict_conf_def checks_alternate_def tick_def appended_def
        List.map_filter_simps too_often_def

lemma play_checks_alternate:
  "fst (play strict_conf ordered_chain checks_alternate
          ([Received req_abc, Received req_abc], test_world, []))
     = [Done (sent (JObj [(''code'', JStr ''0'')])), Done too_often]
   \<and> snd (snd (play strict_conf ordered_chain checks_alternate
          ([Received req_abc, Received req_abc], test_world, [])))
     = [(1000, Address, ''int31abc''), (1500, Origin, ''10.0.0.1'')]
   \<and> now (quota (fst (snd (play strict_conf ordered_chain checks_alternate
          ([Received req_abc, Received req_abc], test_world, []))))) = 1500
   \<and> records (quota (fst (snd (play strict_conf ordered_chain checks_alternate
          ([Received req_abc, Received req_abc], test_world, []))))) (Address, ''int31abc'') = [1000]"
  by (simp add: play_defs)

theorem admission_bounded_witness:
  "snd (snd (play strict_conf ordered_chain checks_alternate
          ([Received req_abc, Received req_abc], test_world, [])))
     = [(1000, Address, ''int31abc''), (1500, Origin, ''10.0.0.1'')]
   \<and> map status_of (fst (play strict_conf ordered_chain checks_alternate
          ([Received req_abc, Received req_abc], test_world, []))) = [Some 200, Some 429]
   \<and> in_window 1500 (Address, ''int31abc'')
        (snd (snd (play strict_conf ordered_chain checks_alternate
          ([Received req_abc, Received req_abc], test_world, []))))
       \<le> limit_of strict_conf (Address, ''int31abc'')
   \<and> limit_of strict_conf (Address, ''int31abc'') = 1
   \<and> now (quota (fst (snd (play strict_conf ordered_chain checks_alternate
          ([Received req_abc, Received req_abc], test_world, []))))) - WINDOW \<le> 0
   \<and> since 0 (Address, ''int31abc'')
        (snd (snd (play strict_conf ordered_chain checks_alternate
          ([Received req_abc, Received req_abc], test_world, []))))
       \<le> stored_since 0 (Address, ''int31abc'')
            (quota (fst (snd (play strict_conf ordered_chain checks_alternate
          ([Received req_abc, Received req_abc], test_world, [])))))"
proof -
  have n: "now (quota (fst (snd (play strict_conf ordered_chain checks_alternate
          ([Received req_abc, Received req_abc], test_world, []))))) - WINDOW \<le> 0"
    by (simp add: play_checks_alternate WINDOW_def)
  have l: "limit_of strict_conf (Address, ''int31abc'') = 1"
    by (simp add: strict_conf_def)
  have s: "map status_of (fst (play strict_conf ordered_chain checks_alternate
          ([Received req_abc, Received req_abc], test_world, []))) = [Some 200, Some 429]"
    by (simp add: play_checks_alternate status_of_def sent_def too_often_def)
  from admission_bounded [where T = 1500 and kd = Address and key = "''int31abc''" and cf = strict_conf
         and K = ordered_chain and ms = checks_alternate
         and ts = "[Received req_abc, Received req_abc]" and w = test_world] n
  have "in_window 1500 (Address, ''int31abc'')
        (snd (snd (play strict_conf ordered_chain checks_alternate
          ([Received req_abc, Received req_abc], test_world, []))))
       \<le> limit_of strict_conf (Address, ''int31abc'')
     \<and> since 0 (Address, ''int31abc'')
        (snd (snd (play strict_conf ordered_chain checks_alternate
          ([Received req_abc, Received req_abc], test_world, []))))
       \<le> stored_since 0 (Address, ''int31abc'')
            (quota (fst (snd (play strict_conf ordered_chain checks_alternate
          ([Received req_abc, Received req_abc], test_world, [])))))"
    by blast
  with n l s play_checks_alternate show ?thesis
    by (intro conjI) simp_all
qed

end
